theory Spec2Isabelle
  imports Complex_Main
begin

section \<open>JavaScript values\<close>

text \<open>
  The component \<^verbatim>\<open>web/src/components/countryhistorymixgraph.js\<close> computes on the
  numbers, \<^verbatim>\<open>null\<close>s and missing properties of the history records the API delivers.
  A JavaScript number is modelled with its special values kept apart: \<open>NaN\<close>, the two
  infinities and the negative zero are constructors of their own; \<open>Fin r\<close> is the finite
  number \<open>r\<close>, and \<open>Fin 0\<close> is the positive zero. Finite results are exact rationals:
  rounding, overflow and underflow of IEEE doubles are not modelled.
\<close>

datatype jsnum = NaN | PInf | NInf | NZero | Fin rat

datatype jsval = Undefined | Null | Number jsnum

text \<open>The sign bit, and the classification of a number.\<close>

fun is_neg :: "jsnum \<Rightarrow> bool" where
  "is_neg NaN = False"
| "is_neg PInf = False"
| "is_neg NInf = True"
| "is_neg NZero = True"
| "is_neg (Fin r) = (r < 0)"

fun is_zero :: "jsnum \<Rightarrow> bool" where
  "is_zero NZero = True"
| "is_zero (Fin r) = (r = 0)"
| "is_zero _ = False"

fun is_inf :: "jsnum \<Rightarrow> bool" where
  "is_inf PInf = True"
| "is_inf NInf = True"
| "is_inf _ = False"

fun fin_val :: "jsnum \<Rightarrow> rat" where
  "fin_val (Fin r) = r"
| "fin_val _ = 0"

definition signed_zero :: "bool \<Rightarrow> jsnum" where
  "signed_zero s = (if s then NZero else Fin 0)"

definition signed_inf :: "bool \<Rightarrow> jsnum" where
  "signed_inf s = (if s then NInf else PInf)"

text \<open>\<^verbatim>\<open>x * y\<close> on numbers.\<close>

definition num_mul :: "jsnum \<Rightarrow> jsnum \<Rightarrow> jsnum" where
  "num_mul x y =
     (if x = NaN \<or> y = NaN then NaN
      else if (is_inf x \<and> is_zero y) \<or> (is_zero x \<and> is_inf y) then NaN
      else if is_inf x \<or> is_inf y then signed_inf (is_neg x \<noteq> is_neg y)
      else if is_zero x \<or> is_zero y then signed_zero (is_neg x \<noteq> is_neg y)
      else Fin (fin_val x * fin_val y))"

text \<open>\<^verbatim>\<open>x / y\<close> on numbers.\<close>

definition num_div :: "jsnum \<Rightarrow> jsnum \<Rightarrow> jsnum" where
  "num_div x y =
     (if x = NaN \<or> y = NaN then NaN
      else if (is_inf x \<and> is_inf y) \<or> (is_zero x \<and> is_zero y) then NaN
      else if is_inf x \<or> is_zero y then signed_inf (is_neg x \<noteq> is_neg y)
      else if is_inf y \<or> is_zero x then signed_zero (is_neg x \<noteq> is_neg y)
      else Fin (fin_val x / fin_val y))"

text \<open>\<^verbatim>\<open>x + y\<close> on numbers: a zero sum is the positive zero unless both operands are
  the negative zero.\<close>

definition num_add :: "jsnum \<Rightarrow> jsnum \<Rightarrow> jsnum" where
  "num_add x y =
     (if x = NaN \<or> y = NaN then NaN
      else if is_inf x \<and> is_inf y then (if x = y then x else NaN)
      else if is_inf x then x
      else if is_inf y then y
      else if x = NZero \<and> y = NZero then NZero
      else Fin (fin_val x + fin_val y))"

text \<open>\<^verbatim>\<open>x < y\<close> on numbers: false as soon as one side is \<open>NaN\<close>; the two zeros are
  equal.\<close>

definition num_lt :: "jsnum \<Rightarrow> jsnum \<Rightarrow> bool" where
  "num_lt x y =
     (if x = NaN \<or> y = NaN then False
      else if x = PInf \<or> y = NInf then False
      else if x = NInf \<or> y = PInf then True
      else fin_val x < fin_val y)"

definition num_ge :: "jsnum \<Rightarrow> jsnum \<Rightarrow> bool" where
  "num_ge x y = (x \<noteq> NaN \<and> y \<noteq> NaN \<and> \<not> num_lt x y)"

text \<open>\<^verbatim>\<open>Math.min(x, y)\<close> and \<^verbatim>\<open>Math.max(x, y)\<close> on numbers: \<open>NaN\<close> if an argument
  is; the negative zero is smaller than the positive one.\<close>

definition math_min :: "jsnum \<Rightarrow> jsnum \<Rightarrow> jsnum" where
  "math_min x y =
     (if x = NaN \<or> y = NaN then NaN
      else if is_zero x \<and> is_zero y then signed_zero (is_neg x \<or> is_neg y)
      else if num_lt y x then y else x)"

definition math_max :: "jsnum \<Rightarrow> jsnum \<Rightarrow> jsnum" where
  "math_max x y =
     (if x = NaN \<or> y = NaN then NaN
      else if is_zero x \<and> is_zero y then signed_zero (is_neg x \<and> is_neg y)
      else if num_lt x y then y else x)"

text \<open>Coercion of a value to a number (\<^verbatim>\<open>ToNumber\<close>), and the arithmetic of the
  language on values.\<close>

fun to_number :: "jsval \<Rightarrow> jsnum" where
  "to_number Undefined = NaN"
| "to_number Null = Fin 0"
| "to_number (Number n) = n"

definition js_div :: "jsval \<Rightarrow> jsval \<Rightarrow> jsnum" where
  "js_div a b = num_div (to_number a) (to_number b)"

definition js_add :: "jsval \<Rightarrow> jsval \<Rightarrow> jsnum" where
  "js_add a b = num_add (to_number a) (to_number b)"

definition js_lt :: "jsval \<Rightarrow> jsval \<Rightarrow> bool" where
  "js_lt a b = num_lt (to_number a) (to_number b)"

definition js_ge :: "jsval \<Rightarrow> jsval \<Rightarrow> bool" where
  "js_ge a b = num_ge (to_number a) (to_number b)"

text \<open>\<^verbatim>\<open>Number.isFinite(v)\<close>: no coercion, so \<^verbatim>\<open>null\<close> and \<^verbatim>\<open>undefined\<close> are
  not finite.\<close>

fun isFinite :: "jsval \<Rightarrow> bool" where
  "isFinite (Number n) = (n \<noteq> NaN \<and> \<not> is_inf n)"
| "isFinite _ = False"

text \<open>\<^verbatim>\<open>v != null\<close>: false for \<^verbatim>\<open>null\<close> and \<^verbatim>\<open>undefined\<close> only.\<close>

fun not_nullish :: "jsval \<Rightarrow> bool" where
  "not_nullish Undefined = False"
| "not_nullish Null = False"
| "not_nullish (Number n) = True"

section \<open>Strings and objects\<close>

text \<open>\<^verbatim>\<open>s.indexOf(pat)\<close>: the position of the first occurrence of \<open>pat\<close> in \<open>s\<close>,
  or \<open>-1\<close>. \<^verbatim>\<open>s.replace(pat, rep)\<close> with a string pattern replaces the first
  occurrence only.\<close>

fun startsWith :: "string \<Rightarrow> string \<Rightarrow> bool" where
  "startsWith s [] = True"
| "startsWith [] (p # ps) = False"
| "startsWith (c # cs) (p # ps) = (c = p \<and> startsWith cs ps)"

fun indexOf :: "string \<Rightarrow> string \<Rightarrow> int" where
  "indexOf [] pat = (if pat = [] then 0 else - 1)"
| "indexOf (c # cs) pat =
     (if startsWith (c # cs) pat then 0
      else (let i = indexOf cs pat in if i = - 1 then - 1 else i + 1))"

fun replace :: "string \<Rightarrow> string \<Rightarrow> string \<Rightarrow> string" where
  "replace [] pat rep = (if pat = [] then rep else [])"
| "replace (c # cs) pat rep =
     (if startsWith (c # cs) pat then rep @ drop (length pat) (c # cs)
      else c # replace cs pat rep)"

text \<open>
  A plain object of the API (\<^verbatim>\<open>production\<close>, \<^verbatim>\<open>storage\<close>, \<^verbatim>\<open>exchange\<close>, the
  intensity tables) is the list of its own properties in enumeration order. Reading a
  property that is not there gives \<^verbatim>\<open>undefined\<close> (what \<^verbatim>\<open>Object.prototype\<close> would
  hand down under names such as \<^verbatim>\<open>constructor\<close> is left out). A property of a record that holds
  such an object is optional: \<open>None\<close> stands for \<^verbatim>\<open>undefined\<close> or \<^verbatim>\<open>null\<close>, which
  \<^verbatim>\<open>x || {}\<close> replaces by the empty object, and on which a property read throws.
\<close>

type_synonym js_object = "(string \<times> jsval) list"

definition getProp :: "js_object \<Rightarrow> string \<Rightarrow> jsval" where
  "getProp ob k = (case map_of ob k of None \<Rightarrow> Undefined | Some v \<Rightarrow> v)"

definition or_empty :: "js_object option \<Rightarrow> js_object" where
  "or_empty ob = (case ob of None \<Rightarrow> [] | Some x \<Rightarrow> x)"

datatype js_error = TypeError

section \<open>The data model\<close>

text \<open>One observation of the zone history, with the fields the component reads.\<close>

record history_record =
  stateDatetime :: string
  production :: "js_object option"
  storage :: "js_object option"
  exchange :: "js_object option"
  productionCo2Intensities :: "js_object option"
  dischargeCo2Intensities :: "js_object option"
  exchangeCo2Intensities :: "js_object option"
  totalProduction :: jsval
  totalImport :: jsval
  totalDischarge :: jsval
  totalCo2Production :: jsval
  totalCo2Import :: jsval
  totalCo2Discharge :: jsval

text \<open>
  A field of an output record: the date \<^verbatim>\<open>moment(d.stateDatetime).toDate()\<close> (kept as
  the timestamp it is parsed from), a number, or the pointer to the source record.
  An output record maps its property names to their fields.
\<close>

datatype field = FDate string | FNum jsnum | FMeta history_record

type_synonym layer_record = "string \<Rightarrow> field option"

text \<open>What \<^verbatim>\<open>formatting.scalePower\<close> returns. The formatter itself and the constant
  \<^verbatim>\<open>modeOrder\<close> live in other modules: the functions below take them as parameters.\<close>

record power_format =
  unit :: string
  formattingFactor :: jsval

record values_info =
  valueAxisLabel :: string
  valueFactor :: jsval

text \<open>
  The fill of a layer: for an exchange key the per-datapoint colour function
  \<^verbatim>\<open>d => co2ColorScale((d.data.meta.exchangeCo2Intensities || {})[key])\<close>, otherwise
  \<^verbatim>\<open>modeColor[key]\<close>. The colour scale and the colour table are other modules'; the
  fill is kept symbolic.
\<close>

datatype layer_fill = ExchangeGradient bool string | ModeColor string

text \<open>The object \<^verbatim>\<open>prepareGraphData\<close> returns; \<^verbatim>\<open>{}\<close> has none of the properties.\<close>

record graph_data =
  data :: "layer_record list option"
  layerKeys :: "string list option"
  layerFill :: "(string \<Rightarrow> layer_fill) option"
  axisLabel :: "string option"

definition empty_object :: graph_data where
  "empty_object = \<lparr>data = None, layerKeys = None, layerFill = None, axisLabel = None\<rparr>"

section \<open>The value-scale selector\<close>

text \<open>
  \<^verbatim>\<open>d3Max(values, accessor)\<close> of d3-array, on the accessor's results: the greatest of
  the values that are neither \<^verbatim>\<open>null\<close>, \<^verbatim>\<open>undefined\<close> nor \<open>NaN\<close>, and
  \<^verbatim>\<open>undefined\<close> when there is none.
\<close>

definition d3Max_step :: "jsval \<Rightarrow> jsval \<Rightarrow> jsval" where
  "d3Max_step mx v =
     (if not_nullish v \<and> (js_lt mx v \<or> (mx = Undefined \<and> js_ge v v)) then v else mx)"

definition d3Max :: "jsval list \<Rightarrow> jsval" where
  "d3Max vs = foldl d3Max_step Undefined vs"

definition total_power :: "history_record \<Rightarrow> jsval" where
  "total_power d =
     Number (num_add (js_add (totalProduction d) (totalImport d)) (to_number (totalDischarge d)))"

definition total_co2 :: "history_record \<Rightarrow> jsval" where
  "total_co2 d =
     Number (num_add (js_add (totalCo2Production d) (totalCo2Import d))
       (to_number (totalCo2Discharge d)))"

definition per_minute :: "jsval \<Rightarrow> jsval" where
  "per_minute v = Number (num_div (js_div v (Number (Fin 1000000))) (Fin 60))"

definition getValuesInfo ::
  "(jsval \<Rightarrow> power_format) \<Rightarrow> history_record list \<Rightarrow> bool \<Rightarrow> values_info" where
  "getValuesInfo scalePower historyData displayByEmissions =
     (let maxTotalValue = d3Max (map (\<lambda>d.
            if displayByEmissions then per_minute (total_co2 d) else total_power d) historyData);
          format = scalePower maxTotalValue
      in \<lparr>valueAxisLabel = (if displayByEmissions then ''tCO2eq / min'' else unit format),
          valueFactor = formattingFactor format\<rparr>)"

section \<open>The layer-data builder\<close>

text \<open>\<^verbatim>\<open>xs.forEach(f)\<close> with a callback that writes into the object under construction
  and may throw; \<^verbatim>\<open>xs.map(f)\<close> with a callback that may throw.\<close>

fun forEach :: "('s \<Rightarrow> 'a \<Rightarrow> js_error + 's) \<Rightarrow> 'a list \<Rightarrow> 's \<Rightarrow> js_error + 's" where
  "forEach f [] s = Inr s"
| "forEach f (x # xs) s = (case f s x of Inl e \<Rightarrow> Inl e | Inr s' \<Rightarrow> forEach f xs s')"

fun map_err :: "('a \<Rightarrow> js_error + 'b) \<Rightarrow> 'a list \<Rightarrow> js_error + 'b list" where
  "map_err f [] = Inr []"
| "map_err f (x # xs) =
     (case f x of Inl e \<Rightarrow> Inl e
      | Inr y \<Rightarrow> (case map_err f xs of Inl e \<Rightarrow> Inl e | Inr ys \<Rightarrow> Inr (y # ys)))"

text \<open>\<^verbatim>\<open>intensity / 1e3 / 60.0\<close>.\<close>

definition co2_factor :: "jsval \<Rightarrow> jsnum" where
  "co2_factor intensity = num_div (js_div intensity (Number (Fin 1000))) (Fin 60)"

text \<open>The callback of \<^verbatim>\<open>modeOrder.forEach\<close> (lines 49 to 64): \<open>val\<close> is the source's
  \<^verbatim>\<open>value\<close>, \<open>n\<close> is \<^verbatim>\<open>obj[k]\<close> after line 55. The keys of \<^verbatim>\<open>modeOrder\<close> are the
  application's names of generation and storage types, under which a property is set by
  plain assignment.\<close>

definition add_production ::
  "history_record \<Rightarrow> bool \<Rightarrow> jsval \<Rightarrow> layer_record \<Rightarrow> string \<Rightarrow> js_error + layer_record" where
  "add_production d displayByEmissions factor obj k =
     (let isStorage = (indexOf k ''storage'' \<noteq> - 1);
          val = (if isStorage
                 then Number (num_mul (Fin (- 1))
                        (math_min (Fin 0)
                          (to_number (getProp (or_empty (storage d)) (replace k '' storage'' '''')))))
                 else getProp (or_empty (production d)) k);
          n = js_div val factor
      in if isFinite val \<and> displayByEmissions \<and> not_nullish (Number n) then
           (if isStorage \<and> js_ge (Number n) (Number (Fin 0)) then
              (case dischargeCo2Intensities d of
                 None \<Rightarrow> Inl TypeError
               | Some t \<Rightarrow>
                   Inr (obj(k \<mapsto> FNum (num_mul n
                     (co2_factor (getProp t (replace k '' storage'' '''')))))))
            else
              (case productionCo2Intensities d of
                 None \<Rightarrow> Inl TypeError
               | Some t \<Rightarrow> Inr (obj(k \<mapsto> FNum (num_mul n (co2_factor (getProp t k)))))))
         else Inr (obj(k \<mapsto> FNum n)))"

text \<open>
  What lodash's \<^verbatim>\<open>forEach(collection, iteratee)\<close> visits. Nothing for \<^verbatim>\<open>null\<close> or
  \<^verbatim>\<open>undefined\<close>. An object is array-like when its \<^verbatim>\<open>length\<close> is a number that is an
  integer, above \<open>-1\<close> and at most \<^verbatim>\<open>Number.MAX_SAFE_INTEGER\<close>; lodash walks such an object
  by index, handing the iteratee the value found under the index and the index itself,
  which names the property \<^verbatim>\<open>String(index)\<close>. Any other object is walked through its own
  properties in enumeration order.
\<close>

definition digit :: "nat \<Rightarrow> char" where
  "digit n = ''0123456789'' ! n"

fun decimal :: "nat \<Rightarrow> string" where
  "decimal n = (if n < 10 then [digit n] else decimal (n div 10) @ [digit (n mod 10)])"

declare decimal.simps [simp del]

definition isLength :: "jsval \<Rightarrow> bool" where
  "isLength v =
     (case v of
        Number (Fin r) \<Rightarrow> - 1 < r \<and> of_int \<lfloor>r\<rfloor> = r \<and> r \<le> 9007199254740991
      | Number NZero \<Rightarrow> True
      | _ \<Rightarrow> False)"

definition isArrayLike :: "js_object \<Rightarrow> bool" where
  "isArrayLike ob = isLength (getProp ob ''length'')"

definition lodash_pairs :: "js_object option \<Rightarrow> (string \<times> jsval) list" where
  "lodash_pairs collection =
     (case collection of
        None \<Rightarrow> []
      | Some ob \<Rightarrow>
          if isArrayLike ob
          then map (\<lambda>index. (decimal index, getProp ob (decimal index)))
                 [0 ..< nat \<lfloor>fin_val (to_number (getProp ob ''length''))\<rfloor>]
          else ob)"

text \<open>
  \<^verbatim>\<open>obj[key] = x\<close> on the object under construction, for a number \<open>x\<close>: it sets the
  property, except under the name \<^verbatim>\<open>__proto__\<close>, where the assignment reaches the setter
  of \<^verbatim>\<open>Object.prototype\<close>, which ignores a number and creates no property.
\<close>

definition assign :: "layer_record \<Rightarrow> string \<Rightarrow> field \<Rightarrow> layer_record" where
  "assign obj key x = (if key = ''__proto__'' then obj else obj(key \<mapsto> x))"

text \<open>The callback of lodash's \<^verbatim>\<open>forEach(d.exchange, ...)\<close> (lines 67 to 74): \<open>n\<close> is the
  number of line 69. What \<^verbatim>\<open>obj[key]\<close> reads back on line 70 is that number, or the
  prototype object under the name \<^verbatim>\<open>__proto__\<close>: not null in both cases.\<close>

definition add_exchange ::
  "history_record \<Rightarrow> bool \<Rightarrow> jsval \<Rightarrow> layer_record \<Rightarrow> string \<times> jsval \<Rightarrow> js_error + layer_record"
  where
  "add_exchange d displayByEmissions factor obj kv =
     (let key = fst kv;
          val = snd kv;
          n = math_max (Fin 0) (js_div val factor)
      in if isFinite val \<and> displayByEmissions \<and> not_nullish (Number n) then
           (case exchangeCo2Intensities d of
              None \<Rightarrow> Inl TypeError
            | Some t \<Rightarrow>
                Inr (assign (assign obj key (FNum n)) key
                  (FNum (num_mul n (co2_factor (getProp t key))))))
         else Inr (assign obj key (FNum n)))"

text \<open>The callback of \<^verbatim>\<open>historyData.map\<close> (lines 44 to 79).\<close>

definition layer_of ::
  "string list \<Rightarrow> bool \<Rightarrow> string \<Rightarrow> jsval \<Rightarrow> history_record \<Rightarrow> js_error + layer_record" where
  "layer_of modeOrder displayByEmissions electricityMixMode factor d =
     (case forEach (add_production d displayByEmissions factor) modeOrder
             [''datetime'' \<mapsto> FDate (stateDatetime d)] of
        Inl e \<Rightarrow> Inl e
      | Inr obj1 \<Rightarrow>
          (case (if electricityMixMode = ''consumption''
                 then forEach (add_exchange d displayByEmissions factor)
                        (lodash_pairs (exchange d)) obj1
                 else Inr obj1) of
             Inl e \<Rightarrow> Inl e
           | Inr obj2 \<Rightarrow> Inr (obj2(''meta'' \<mapsto> FMeta d))))"

definition layerFill_of :: "bool \<Rightarrow> string list \<Rightarrow> string \<Rightarrow> layer_fill" where
  "layerFill_of colorBlindModeEnabled exchangeKeys key =
     (if key \<in> set exchangeKeys then ExchangeGradient colorBlindModeEnabled key
      else ModeColor key)"

text \<open>
  \<^verbatim>\<open>prepareGraphData\<close> (lines 36 to 99). The batch is \<open>None\<close> when it is absent; its
  elements are objects, so \<^verbatim>\<open>!historyData[0]\<close> holds exactly when the batch is empty.
\<close>

definition prepareGraphData ::
  "(jsval \<Rightarrow> power_format) \<Rightarrow> string list \<Rightarrow> history_record list option \<Rightarrow> bool \<Rightarrow> bool \<Rightarrow>
     string \<Rightarrow> string list \<Rightarrow> js_error + graph_data" where
  "prepareGraphData scalePower modeOrder historyData colorBlindModeEnabled displayByEmissions
       electricityMixMode exchangeKeys =
     (case historyData of
        None \<Rightarrow> Inr empty_object
      | Some [] \<Rightarrow> Inr empty_object
      | Some (d0 # ds) \<Rightarrow>
          (let info = getValuesInfo scalePower (d0 # ds) displayByEmissions in
           case map_err (layer_of modeOrder displayByEmissions electricityMixMode
                           (valueFactor info)) (d0 # ds) of
             Inl e \<Rightarrow> Inl e
           | Inr rows \<Rightarrow>
               Inr \<lparr>data = Some rows,
                    layerKeys = Some (modeOrder @ exchangeKeys),
                    layerFill = Some (layerFill_of colorBlindModeEnabled exchangeKeys),
                    axisLabel = Some (valueAxisLabel info)\<rparr>))"

section \<open>The component's state and its handlers\<close>

text \<open>
  The local state of \<^verbatim>\<open>CountryHistoryMixGraph\<close> (the two \<^verbatim>\<open>useState\<close> cells, both
  \<^verbatim>\<open>null\<close> at first) together with the store's \<^verbatim>\<open>selectedZoneTimeIndex\<close> that
  the handlers dispatch to. \<^verbatim>\<open>getTooltipPosition\<close> is another module's: a parameter.
\<close>

record 'q tooltip_payload =
  mode :: string
  position :: 'q
  zoneData :: "field option"

record 'q component_state =
  tooltip :: "'q tooltip_payload option"
  selectedLayerIndex :: "nat option"
  selectedZoneTimeIndex :: "nat option"

definition initial_state :: "'q component_state" where
  "initial_state = \<lparr>tooltip = None, selectedLayerIndex = None, selectedZoneTimeIndex = None\<rparr>"

definition backgroundMouseMoveHandler :: "nat \<Rightarrow> 'q component_state \<Rightarrow> 'q component_state" where
  "backgroundMouseMoveHandler timeIndex s = s\<lparr>selectedZoneTimeIndex := Some timeIndex\<rparr>"

definition backgroundMouseOutHandler :: "'q component_state \<Rightarrow> 'q component_state" where
  "backgroundMouseOutHandler s = s\<lparr>selectedZoneTimeIndex := None\<rparr>"

definition layerMouseMoveHandler ::
  "nat \<Rightarrow> nat \<Rightarrow> 'q component_state \<Rightarrow> 'q component_state" where
  "layerMouseMoveHandler timeIndex layerIndex s =
     s\<lparr>selectedZoneTimeIndex := Some timeIndex, selectedLayerIndex := Some layerIndex\<rparr>"

definition layerMouseOutHandler :: "'q component_state \<Rightarrow> 'q component_state" where
  "layerMouseOutHandler s = s\<lparr>selectedZoneTimeIndex := None, selectedLayerIndex := None\<rparr>"

definition markerUpdateHandler ::
  "(bool \<Rightarrow> 'p \<Rightarrow> 'q) \<Rightarrow> bool \<Rightarrow> 'p \<Rightarrow> layer_record \<Rightarrow> string \<Rightarrow>
     'q component_state \<Rightarrow> 'q component_state" where
  "markerUpdateHandler getTooltipPosition isMobile pos datapoint layerKey s =
     s\<lparr>tooltip := Some \<lparr>mode = layerKey,
                          position = getTooltipPosition isMobile pos,
                          zoneData = datapoint ''meta''\<rparr>\<rparr>"

definition markerHideHandler :: "'q component_state \<Rightarrow> 'q component_state" where
  "markerHideHandler s = s\<lparr>tooltip := None\<rparr>"

text \<open>The events the chart raises, each handled by the callback wired to it.\<close>

datatype 'p event =
    BackgroundMouseMove nat
  | BackgroundMouseOut
  | LayerMouseMove nat nat
  | LayerMouseOut
  | MarkerUpdate 'p layer_record string
  | MarkerHide

fun handle ::
  "(bool \<Rightarrow> 'p \<Rightarrow> 'q) \<Rightarrow> bool \<Rightarrow> 'q component_state \<Rightarrow> 'p event \<Rightarrow> 'q component_state" where
  "handle g isMobile s (BackgroundMouseMove t) = backgroundMouseMoveHandler t s"
| "handle g isMobile s BackgroundMouseOut = backgroundMouseOutHandler s"
| "handle g isMobile s (LayerMouseMove t l) = layerMouseMoveHandler t l s"
| "handle g isMobile s LayerMouseOut = layerMouseOutHandler s"
| "handle g isMobile s (MarkerUpdate pos datapoint layerKey) =
     markerUpdateHandler g isMobile pos datapoint layerKey s"
| "handle g isMobile s MarkerHide = markerHideHandler s"

definition run :: "(bool \<Rightarrow> 'p \<Rightarrow> 'q) \<Rightarrow> bool \<Rightarrow> 'p event list \<Rightarrow> 'q component_state" where
  "run g isMobile evs = foldl (handle g isMobile) initial_state evs"

section \<open>Notions the statements use\<close>

text \<open>A scale factor that is a finite number above zero, as a divisor that converts into a
  unit of power is.\<close>

definition pos_finite :: "jsval \<Rightarrow> bool" where
  "pos_finite v = (case v of Number (Fin r) \<Rightarrow> 0 < r | _ \<Rightarrow> False)"

text \<open>The number the callback of \<^verbatim>\<open>modeOrder.forEach\<close> leaves under \<open>k\<close>, or the error
  it throws, read off the callback run on an empty object. The number the callback of the
  exchange loop assigns last for a pair it visits, or the error it throws.\<close>

definition production_field ::
  "history_record \<Rightarrow> bool \<Rightarrow> jsval \<Rightarrow> string \<Rightarrow> js_error + jsnum" where
  "production_field d displayByEmissions factor k =
     (case add_production d displayByEmissions factor Map.empty k of
        Inl e \<Rightarrow> Inl e
      | Inr obj \<Rightarrow> (case obj k of Some (FNum n) \<Rightarrow> Inr n | _ \<Rightarrow> Inl TypeError))"

definition exchange_field ::
  "history_record \<Rightarrow> bool \<Rightarrow> jsval \<Rightarrow> string \<times> jsval \<Rightarrow> js_error + jsnum" where
  "exchange_field d displayByEmissions factor kv =
     (let n = math_max (Fin 0) (js_div (snd kv) factor)
      in if isFinite (snd kv) \<and> displayByEmissions then
           (case exchangeCo2Intensities d of
              None \<Rightarrow> Inl TypeError
            | Some t \<Rightarrow> Inr (num_mul n (co2_factor (getProp t (fst kv)))))
         else Inr n)"

text \<open>A storage category is a key that contains \<^verbatim>\<open>storage\<close>; its entry in the storage
  and discharge-intensity tables is the key without \<^verbatim>\<open> storage\<close>.\<close>

definition is_storage :: "string \<Rightarrow> bool" where
  "is_storage k = (indexOf k ''storage'' \<noteq> - 1)"

definition storage_key :: "string \<Rightarrow> string" where
  "storage_key k = replace k '' storage'' ''''"

text \<open>
  The value of a category as the specification words it. The raw value: the net storage
  field negated and floored at zero for a storage category, the production field read
  directly for a generation category.
\<close>

definition raw_value :: "history_record \<Rightarrow> string \<Rightarrow> jsval" where
  "raw_value d k =
     (if is_storage k
      then Number (num_mul (Fin (- 1))
             (math_min (Fin 0) (to_number (getProp (or_empty (storage d)) (storage_key k)))))
      else getProp (or_empty (production d)) k)"

text \<open>The intensity that applies to a category: the discharge-intensity table for
  storage, the production-intensity table for generation.\<close>

definition category_intensity :: "history_record \<Rightarrow> string \<Rightarrow> jsval" where
  "category_intensity d k =
     (if is_storage k then getProp (or_empty (dischargeCo2Intensities d)) (storage_key k)
      else getProp (or_empty (productionCo2Intensities d)) k)"

text \<open>The raw value divided by the scale factor and, when emissions are displayed, the raw
  value is finite and the normalized value is not null, multiplied by the intensity
  divided by 1000 and by 60.\<close>

definition expected_category_value :: "history_record \<Rightarrow> bool \<Rightarrow> jsval \<Rightarrow> string \<Rightarrow> jsnum" where
  "expected_category_value d displayByEmissions factor k =
     (let n = js_div (raw_value d k) factor
      in if displayByEmissions \<and> isFinite (raw_value d k) \<and> not_nullish (Number n)
         then num_mul n (co2_factor (category_intensity d k))
         else n)"

text \<open>Flooring at zero, case by case: what is below zero, and a zero of either sign,
  becomes zero; anything else stays.\<close>

fun floor_at_zero :: "jsnum \<Rightarrow> jsnum" where
  "floor_at_zero NaN = NaN"
| "floor_at_zero PInf = PInf"
| "floor_at_zero NInf = Fin 0"
| "floor_at_zero NZero = Fin 0"
| "floor_at_zero (Fin r) = (if r < 0 then Fin 0 else Fin r)"


text \<open>The three intensity tables of a record are objects (their entries may be missing).\<close>

definition tables_present :: "history_record \<Rightarrow> bool" where
  "tables_present d =
     (productionCo2Intensities d \<noteq> None \<and> dischargeCo2Intensities d \<noteq> None \<and>
      exchangeCo2Intensities d \<noteq> None)"

text \<open>The scale factor \<^verbatim>\<open>prepareGraphData\<close> normalizes a batch with.\<close>

definition scale_factor :: "(jsval \<Rightarrow> power_format) \<Rightarrow> history_record list \<Rightarrow> bool \<Rightarrow> jsval" where
  "scale_factor scalePower historyData displayByEmissions =
     valueFactor (getValuesInfo scalePower historyData displayByEmissions)"

text \<open>Reading the outcome of \<^verbatim>\<open>prepareGraphData\<close>: whether it returned at all, the
  field \<open>k\<close> of its \<open>i\<close>-th output record, and its layer keys and axis label (\<open>None\<close>
  where there is nothing to read).\<close>

definition returns :: "js_error + 'a \<Rightarrow> bool" where
  "returns r = (case r of Inl e \<Rightarrow> False | Inr x \<Rightarrow> True)"

definition output_field :: "js_error + graph_data \<Rightarrow> nat \<Rightarrow> string \<Rightarrow> field option" where
  "output_field r i k =
     (case r of
        Inl e \<Rightarrow> None
      | Inr res \<Rightarrow>
          (case data res of
             None \<Rightarrow> None
           | Some rows \<Rightarrow> (if i < length rows then (rows ! i) k else None)))"

definition output_length :: "js_error + graph_data \<Rightarrow> nat option" where
  "output_length r =
     (case r of Inl e \<Rightarrow> None | Inr res \<Rightarrow> map_option length (data res))"

definition output_layerKeys :: "js_error + graph_data \<Rightarrow> string list option" where
  "output_layerKeys r = (case r of Inl e \<Rightarrow> None | Inr res \<Rightarrow> layerKeys res)"

definition output_axisLabel :: "js_error + graph_data \<Rightarrow> string option" where
  "output_axisLabel r = (case r of Inl e \<Rightarrow> None | Inr res \<Rightarrow> axisLabel res)"

text \<open>A value \<^verbatim>\<open>d3Max\<close> takes into account: not \<^verbatim>\<open>null\<close>, not \<^verbatim>\<open>undefined\<close>, not
  \<open>NaN\<close>. The peak of a list of values: one of its values that none of them exceeds,
  or \<^verbatim>\<open>undefined\<close> when no value counts. The peak divided by 1,000,000 and by 60: a
  finite peak is divided, an infinite or a missing one stays what it is.\<close>

definition comparable :: "jsval \<Rightarrow> bool" where
  "comparable v = (not_nullish v \<and> js_ge v v)"

definition is_peak :: "jsval \<Rightarrow> jsval list \<Rightarrow> bool" where
  "is_peak p vs =
     ((p = Undefined \<and> (\<forall>v\<in>set vs. \<not> comparable v)) \<or>
      (comparable p \<and> p \<in> set vs \<and> (\<forall>v\<in>set vs. comparable v \<longrightarrow> \<not> js_lt p v)))"

definition divided_peak :: "jsval \<Rightarrow> jsval" where
  "divided_peak p = (case p of Number (Fin r) \<Rightarrow> Number (Fin (r / 1000000 / 60)) | _ \<Rightarrow> p)"

text \<open>The accumulator of \<^verbatim>\<open>d3Max\<close> when every value has gone through the division of
  line 26.\<close>

definition peak_per_minute :: "jsval \<Rightarrow> jsval" where
  "peak_per_minute v = (case v of Undefined \<Rightarrow> Undefined | _ \<Rightarrow> per_minute v)"

text \<open>A value that is not below zero as a number (\<open>NaN\<close> and a missing value are not
  below zero); a value that is a finite number (\<^verbatim>\<open>null\<close> counts as zero).\<close>

definition not_negative :: "jsval \<Rightarrow> bool" where
  "not_negative v = (\<not> js_lt v (Number (Fin 0)))"

definition finite_value :: "jsval \<Rightarrow> bool" where
  "finite_value v = (to_number v \<noteq> NaN \<and> \<not> is_inf (to_number v))"

subsection \<open>Inputs for the examples\<close>

text \<open>
  The record of the specification's example: gas produces 100, the net battery storage is
  \<open>b\<close>, 30 is imported from US. The intensity tables have an entry for each of the three
  when \<open>full\<close> holds and are empty objects otherwise.
\<close>

definition example_record :: "rat \<Rightarrow> bool \<Rightarrow> history_record" where
  "example_record b full =
     \<lparr>stateDatetime = ''2020-03-01T12:00:00Z'',
      production = Some [(''gas'', Number (Fin 100))],
      storage = Some [(''battery'', Number (Fin b))],
      exchange = Some [(''US'', Number (Fin 30))],
      productionCo2Intensities = Some (if full then [(''gas'', Number (Fin 490))] else []),
      dischargeCo2Intensities = Some (if full then [(''battery'', Number (Fin 300))] else []),
      exchangeCo2Intensities = Some (if full then [(''US'', Number (Fin 420))] else []),
      totalProduction = Number (Fin 100),
      totalImport = Number (Fin 30),
      totalDischarge = Number (Fin (max 0 (- b))),
      totalCo2Production = Number (Fin 49000),
      totalCo2Import = Number (Fin 12600),
      totalCo2Discharge = Number (Fin (300 * max 0 (- b)))\<rparr>"

text \<open>A record without a production object, exporting 20 to US, its exchange with DE
  unknown (\<^verbatim>\<open>null\<close>).\<close>

definition bare_record :: history_record where
  "bare_record =
     \<lparr>stateDatetime = ''2020-03-01T13:00:00Z'',
      production = None,
      storage = None,
      exchange = Some [(''US'', Number (Fin (- 20))), (''DE'', Null)],
      productionCo2Intensities = Some [],
      dischargeCo2Intensities = Some [],
      exchangeCo2Intensities = Some [(''US'', Number (Fin 420))],
      totalProduction = Number (Fin 0),
      totalImport = Number (Fin 0),
      totalDischarge = Number (Fin 0),
      totalCo2Production = Number (Fin 0),
      totalCo2Import = Number (Fin 0),
      totalCo2Discharge = Number (Fin 0)\<rparr>"

text \<open>A formatter that always picks megawatts, with the scale factor 1, and one that
  picks kilowatts below 1, megawatts below 1000 and gigawatts from there; a category order
  with one generation and one storage category; a tooltip-position helper on pairs that
  anchors the tooltip at the origin on mobile.\<close>

definition unit_scale :: "jsval \<Rightarrow> power_format" where
  "unit_scale v = \<lparr>unit = ''MW'', formattingFactor = Number (Fin 1)\<rparr>"

definition threshold_scale :: "jsval \<Rightarrow> power_format" where
  "threshold_scale v =
     (if js_lt v (Number (Fin 1)) then \<lparr>unit = ''kW'', formattingFactor = Number (Fin (1 / 1000))\<rparr>
      else if js_lt v (Number (Fin 1000)) then \<lparr>unit = ''MW'', formattingFactor = Number (Fin 1)\<rparr>
      else \<lparr>unit = ''GW'', formattingFactor = Number (Fin 1000)\<rparr>)"

definition example_order :: "string list" where
  "example_order = [''gas'', ''battery storage'']"

definition example_datapoint :: layer_record where
  "example_datapoint = [''meta'' \<mapsto> FMeta bare_record]"

definition example_position :: "bool \<Rightarrow> int \<times> int \<Rightarrow> int \<times> int" where
  "example_position isMobile p = (if isMobile then (0, 0) else p)"

section \<open>Arithmetic of the callbacks\<close>

lemma pos_finiteE: "pos_finite f \<Longrightarrow> \<exists>r. f = Number (Fin r) \<and> 0 < r"
  by (auto simp: pos_finite_def split: jsval.splits jsnum.splits)

lemma max0_div_pos:
  assumes "pos_finite f"
  shows "math_max (Fin 0) (js_div v f) = num_div (floor_at_zero (to_number v)) (to_number f)"
proof -
  from assms obtain r where f: "f = Number (Fin r)" and r: "0 < r" by (auto dest: pos_finiteE)
  show ?thesis
    by (cases "to_number v")
       (use r in \<open>auto simp: f js_div_def num_div_def math_max_def num_lt_def signed_zero_def
          signed_inf_def zero_less_divide_iff divide_less_0_iff\<close>)
qed

lemma discharge_nonneg:
  assumes "pos_finite f" and "isFinite (Number (num_mul (Fin (- 1)) (math_min (Fin 0) x)))"
  shows "js_ge (Number (js_div (Number (num_mul (Fin (- 1)) (math_min (Fin 0) x))) f)) (Number (Fin 0))"
proof -
  from assms obtain r where f: "f = Number (Fin r)" and r: "0 < r" by (auto dest: pos_finiteE)
  show ?thesis using assms(2)
    by (cases x)
       (use r in \<open>auto simp: f js_div_def js_ge_def num_ge_def num_div_def num_mul_def math_min_def num_lt_def signed_zero_def
          signed_inf_def zero_less_divide_iff divide_less_0_iff not_less divide_le_0_iff split: if_splits\<close>)
qed

lemma add_production_field:
  "add_production d e f obj k =
     (case production_field d e f k of Inl err \<Rightarrow> Inl err | Inr n \<Rightarrow> Inr (obj(k \<mapsto> FNum n)))"
  by (simp add: add_production_def production_field_def Let_def split: option.splits)

lemma assign_twice: "assign (assign obj key x) key y = assign obj key y"
  by (simp add: assign_def)

lemma add_exchange_field:
  "add_exchange d e f obj kv =
     (case exchange_field d e f kv of
        Inl err \<Rightarrow> Inl err
      | Inr n \<Rightarrow> Inr (assign obj (fst kv) (FNum n)))"
  by (simp add: add_exchange_def exchange_field_def Let_def assign_twice split: option.splits)

lemma production_field_expected:
  assumes "pos_finite f" and "production_field d e f k = Inr n"
  shows "n = expected_category_value d e f k"
proof (cases "is_storage k")
  case True
  have ge: "isFinite (raw_value d k) \<Longrightarrow> js_ge (Number (js_div (raw_value d k) f)) (Number (Fin 0))"
    using discharge_nonneg [OF assms(1)] True by (simp add: raw_value_def)
  show ?thesis
    using assms(2) True ge
    by (auto simp: production_field_def add_production_def expected_category_value_def
        raw_value_def category_intensity_def is_storage_def storage_key_def or_empty_def Let_def
        split: if_splits option.splits)
next
  case False
  then show ?thesis
    using assms(2)
    by (auto simp: production_field_def add_production_def expected_category_value_def
        raw_value_def category_intensity_def is_storage_def storage_key_def or_empty_def Let_def
        split: if_splits option.splits)
qed


lemma production_field_total:
  assumes "\<not> e \<or> tables_present d"
  shows "\<exists>n. production_field d e f k = Inr n"
  using assms
  by (auto simp: production_field_def add_production_def tables_present_def Let_def
      split: if_splits option.splits)

lemma exchange_field_total:
  assumes "\<not> e \<or> tables_present d"
  shows "\<exists>n. exchange_field d e f kv = Inr n"
  using assms
  by (auto simp: exchange_field_def add_exchange_def tables_present_def Let_def
      split: if_splits option.splits)

text \<open>Negating what \<^verbatim>\<open>Math.min(0, x)\<close> leaves is flooring the negated value at zero, up
  to the sign of a zero result.\<close>

lemma negated_floor:
  "num_mul (Fin (- 1)) (math_min (Fin 0) x) = math_max (Fin 0) (num_mul (Fin (- 1)) x) \<or>
   (is_zero (num_mul (Fin (- 1)) (math_min (Fin 0) x)) \<and>
    is_zero (math_max (Fin 0) (num_mul (Fin (- 1)) x)))"
  by (cases x)
     (auto simp: num_mul_def math_min_def math_max_def num_lt_def signed_zero_def signed_inf_def)

lemma num_mul_NaN: "num_mul n NaN = NaN"
  by (simp add: num_mul_def)

lemma co2_factor_Undefined: "co2_factor Undefined = NaN"
  by (simp add: co2_factor_def js_div_def num_div_def)

lemma exchange_field_no_intensity:
  assumes "isFinite v"
    and "getProp (or_empty (exchangeCo2Intensities d)) k = Undefined"
    and "exchange_field d True f (k, v) = Inr n"
  shows "n = NaN"
  using assms
  by (auto simp: exchange_field_def or_empty_def co2_factor_Undefined num_mul_NaN
      split: option.splits)

section \<open>The loops\<close>

text \<open>Both loops run a callback that computes a number \<open>g x\<close> for the element \<open>x\<close> (or
  throws) and stores it under the key of \<open>x\<close> when that key can be written.\<close>

lemma forEach_frame:
  assumes step: "\<And>obj x. step obj x =
      (case g x of Inl err \<Rightarrow> Inl err
       | Inr n \<Rightarrow> Inr (if w (key x) then obj(key x \<mapsto> FNum n) else obj))"
  shows "forEach step xs obj = Inr obj' \<Longrightarrow> k \<notin> key ` set xs \<or> \<not> w k \<Longrightarrow> obj' k = obj k"
proof (induction xs arbitrary: obj)
  case Nil
  then show ?case by simp
next
  case (Cons x xs)
  from Cons.prems(1) obtain obj1 where s1: "step obj x = Inr obj1"
    and rest1: "forEach step xs obj1 = Inr obj'"
    by (auto split: sum.splits)
  from s1 step [of obj x] obtain n where gx: "g x = Inr n"
    and obj1: "obj1 = (if w (key x) then obj(key x \<mapsto> FNum n) else obj)"
    by (auto split: sum.splits)
  from Cons.prems(2) have "k \<notin> key ` set xs \<or> \<not> w k" by auto
  from Cons.IH [OF rest1 this] have "obj' k = obj1 k" .
  also from Cons.prems(2) obj1 have "obj1 k = obj k" by auto
  finally show ?case .
qed

lemma forEach_written:
  assumes step: "\<And>obj x. step obj x =
      (case g x of Inl err \<Rightarrow> Inl err
       | Inr n \<Rightarrow> Inr (if w (key x) then obj(key x \<mapsto> FNum n) else obj))"
  shows "forEach step xs obj = Inr obj' \<Longrightarrow> k \<in> key ` set xs \<Longrightarrow> w k \<Longrightarrow>
         \<exists>x\<in>set xs. key x = k \<and> (\<exists>n. g x = Inr n \<and> obj' k = Some (FNum n))"
proof (induction xs arbitrary: obj)
  case Nil
  then show ?case by simp
next
  case (Cons x xs)
  from Cons.prems(1) obtain obj1 where s1: "step obj x = Inr obj1"
    and rest1: "forEach step xs obj1 = Inr obj'"
    by (auto split: sum.splits)
  from s1 step [of obj x] obtain n where gx: "g x = Inr n"
    and obj1: "obj1 = (if w (key x) then obj(key x \<mapsto> FNum n) else obj)"
    by (auto split: sum.splits)
  show ?case
  proof (cases "k \<in> key ` set xs")
    case True
    from Cons.IH [OF rest1 True Cons.prems(3)] show ?thesis by auto
  next
    case False
    with Cons.prems(2) have kx: "key x = k" by auto
    from False have "k \<notin> key ` set xs \<or> \<not> w k" by simp
    from forEach_frame [where step = step, OF step rest1 this] kx obj1 Cons.prems(3)
    have "obj' k = Some (FNum n)" by simp
    with gx kx show ?thesis by auto
  qed
qed

lemma forEach_all_ok:
  assumes step: "\<And>obj x. step obj x =
      (case g x of Inl err \<Rightarrow> Inl err
       | Inr n \<Rightarrow> Inr (if w (key x) then obj(key x \<mapsto> FNum n) else obj))"
  shows "forEach step xs obj = Inr obj' \<Longrightarrow> x \<in> set xs \<Longrightarrow> \<exists>n. g x = Inr n"
proof (induction xs arbitrary: obj)
  case Nil
  then show ?case by simp
next
  case (Cons y ys)
  from Cons.prems(1) obtain obj1 where s1: "step obj y = Inr obj1"
    and rest: "forEach step ys obj1 = Inr obj'"
    by (auto split: sum.splits)
  from s1 step [of obj y] obtain n where gy: "g y = Inr n"
    by (auto split: sum.splits)
  show ?case
  proof (cases "x = y")
    case True
    with gy show ?thesis by simp
  next
    case False
    with Cons.prems(2) have "x \<in> set ys" by simp
    from Cons.IH [OF rest this] show ?thesis .
  qed
qed

lemma forEach_total:
  assumes step: "\<And>obj x. step obj x =
      (case g x of Inl err \<Rightarrow> Inl err
       | Inr n \<Rightarrow> Inr (if w (key x) then obj(key x \<mapsto> FNum n) else obj))"
  shows "(\<And>x. x \<in> set xs \<Longrightarrow> \<exists>n. g x = Inr n) \<Longrightarrow> \<exists>obj'. forEach step xs obj = Inr obj'"
proof (induction xs arbitrary: obj)
  case Nil
  then show ?case by simp
next
  case (Cons x xs)
  from Cons.prems [of x] obtain n where gx: "g x = Inr n" by auto
  let ?obj1 = "if w (key x) then obj(key x \<mapsto> FNum n) else obj"
  have "\<exists>obj'. forEach step xs ?obj1 = Inr obj'"
    by (rule Cons.IH) (simp add: Cons.prems)
  then obtain obj' where "forEach step xs ?obj1 = Inr obj'" ..
  moreover from gx step [of obj x] have "step obj x = Inr ?obj1"
    by simp
  ultimately show ?case by simp
qed

text \<open>When the elements with the key of \<open>x\<close> all compute the same number, that number is
  what the loop leaves under the key.\<close>

lemma forEach_same_key:
  assumes step: "\<And>obj x. step obj x =
      (case g x of Inl err \<Rightarrow> Inl err
       | Inr n \<Rightarrow> Inr (if w (key x) then obj(key x \<mapsto> FNum n) else obj))"
    and run: "forEach step xs obj = Inr obj'"
    and same: "\<And>y. y \<in> set xs \<Longrightarrow> key y = key x \<Longrightarrow> g y = g x"
    and mem: "x \<in> set xs" and w: "w (key x)"
  shows "\<exists>n. g x = Inr n \<and> obj' (key x) = Some (FNum n)"
proof -
  from mem have "key x \<in> key ` set xs" by simp
  from forEach_written [where step = step, OF step run this w]
  obtain y n where y: "y \<in> set xs" "key y = key x" "g y = Inr n" "obj' (key x) = Some (FNum n)"
    by auto
  from same [OF y(1,2)] y(3,4) show ?thesis by auto
qed

lemma map_err_Inr:
  "map_err f xs = Inr ys \<Longrightarrow> length ys = length xs \<and> (\<forall>i<length xs. f (xs ! i) = Inr (ys ! i))"
proof (induction xs arbitrary: ys)
  case Nil
  then show ?case by simp
next
  case (Cons x xs)
  from Cons.prems obtain y ys' where fx: "f x = Inr y" and rest: "map_err f xs = Inr ys'"
    and ys: "ys = y # ys'"
    by (auto split: sum.splits)
  from Cons.IH [OF rest] fx ys show ?case
    by (auto simp: nth_Cons split: nat.splits)
qed

lemma map_err_total:
  "(\<And>x. x \<in> set xs \<Longrightarrow> \<exists>y. f x = Inr y) \<Longrightarrow> \<exists>ys. map_err f xs = Inr ys"
proof (induction xs)
  case Nil
  then show ?case by simp
next
  case (Cons x xs)
  from Cons.prems [of x] obtain y where "f x = Inr y" by auto
  moreover have "\<exists>ys. map_err f xs = Inr ys" by (rule Cons.IH) (simp add: Cons.prems)
  ultimately show ?case by auto
qed

text \<open>The pairs the exchange loop visits: the own properties of an object that is not
  array-like; in any case a value that is read under its key, so that two visited pairs
  with one key have one value as soon as the own properties have distinct names.\<close>

lemma lodash_pairs_plain:
  "\<not> isArrayLike (or_empty ob) \<Longrightarrow> lodash_pairs ob = or_empty ob"
  by (cases ob) (simp_all add: lodash_pairs_def or_empty_def)

lemma lodash_pairs_value:
  assumes "distinct (map fst (or_empty ob))" and "(k, v) \<in> set (lodash_pairs ob)"
  shows "v = getProp (or_empty ob) k"
proof (cases ob)
  case None
  with assms(2) show ?thesis by (simp add: lodash_pairs_def)
next
  case (Some x)
  show ?thesis
  proof (cases "isArrayLike x")
    case True
    with assms(2) Some show ?thesis by (auto simp: lodash_pairs_def or_empty_def)
  next
    case False
    with assms Some have "distinct (map fst x)" "(k, v) \<in> set x"
      by (simp_all add: lodash_pairs_def or_empty_def)
    then have "map_of x k = Some v" by simp
    with Some show ?thesis by (simp add: getProp_def or_empty_def)
  qed
qed

lemma lodash_pairs_not_own:
  assumes "(k, v) \<in> set (lodash_pairs ob)" and "k \<notin> fst ` set (or_empty ob)"
  shows "v = Undefined"
proof (cases ob)
  case None
  with assms(1) show ?thesis by (simp add: lodash_pairs_def)
next
  case (Some x)
  from assms(2) Some have no: "map_of x k = None"
    by (simp add: or_empty_def map_of_eq_None_iff)
  show ?thesis
  proof (cases "isArrayLike x")
    case True
    with assms(1) Some no show ?thesis by (auto simp: lodash_pairs_def getProp_def)
  next
    case False
    with assms Some show ?thesis by (force simp: lodash_pairs_def or_empty_def)
  qed
qed

section \<open>One output record, and the whole batch\<close>

lemma add_production_step:
  "add_production d e f obj x =
     (case production_field d e f x of
        Inl err \<Rightarrow> Inl err
      | Inr n \<Rightarrow> Inr (if True then obj(x \<mapsto> FNum n) else obj))"
  by (simp add: add_production_field split: sum.splits)

lemma add_exchange_step:
  "add_exchange d e f obj x =
     (case exchange_field d e f x of
        Inl err \<Rightarrow> Inl err
      | Inr n \<Rightarrow> Inr (if fst x \<noteq> ''__proto__'' then obj(fst x \<mapsto> FNum n) else obj))"
  by (simp add: add_exchange_field assign_def split: sum.splits)

lemma forEach_production_written:
  assumes "forEach (add_production d e f) ks obj = Inr obj'" and "k \<in> set ks"
  shows "\<exists>n. production_field d e f k = Inr n \<and> obj' k = Some (FNum n)"
proof -
  from assms(2) have "k \<in> (\<lambda>x. x) ` set ks" by simp
  from forEach_written [where step = "add_production d e f" and g = "production_field d e f"
      and key = "\<lambda>x. x" and w = "\<lambda>x. True", OF add_production_step assms(1) this]
  show ?thesis by auto
qed

lemma forEach_production_frame:
  assumes "forEach (add_production d e f) ks obj = Inr obj'" and "k \<notin> set ks"
  shows "obj' k = obj k"
proof -
  from assms(2) have "k \<notin> (\<lambda>x. x) ` set ks \<or> \<not> True" by simp
  from forEach_frame [where step = "add_production d e f" and g = "production_field d e f"
      and key = "\<lambda>x. x" and w = "\<lambda>x. True", OF add_production_step assms(1) this]
  show ?thesis .
qed

lemma forEach_production_total:
  assumes "\<not> e \<or> tables_present d"
  shows "\<exists>obj'. forEach (add_production d e f) ks obj = Inr obj'"
  by (rule forEach_total [where g = "production_field d e f" and key = "\<lambda>x. x"
        and w = "\<lambda>x. True"])
     (simp_all add: add_production_step production_field_total [OF assms])

lemma forEach_exchange_total:
  assumes "\<not> e \<or> tables_present d"
  shows "\<exists>obj'. forEach (add_exchange d e f) xs obj = Inr obj'"
  by (rule forEach_total [where g = "exchange_field d e f" and key = fst
        and w = "\<lambda>k. k \<noteq> ''__proto__''"])
     (simp_all add: add_exchange_step exchange_field_total [OF assms])

lemma forEach_exchange_frame:
  assumes "forEach (add_exchange d e f) xs obj = Inr obj'"
    and "k \<notin> fst ` set xs \<or> k = ''__proto__''"
  shows "obj' k = obj k"
proof -
  from assms(2) have "k \<notin> fst ` set xs \<or> \<not> k \<noteq> ''__proto__''" by simp
  from forEach_frame [where step = "add_exchange d e f" and g = "exchange_field d e f"
      and key = fst and w = "\<lambda>k. k \<noteq> ''__proto__''", OF add_exchange_step assms(1) this]
  show ?thesis .
qed

lemma forEach_exchange_written:
  assumes "forEach (add_exchange d e f) xs obj = Inr obj'"
    and "k \<in> fst ` set xs" and "k \<noteq> ''__proto__''"
  shows "\<exists>v n. (k, v) \<in> set xs \<and> exchange_field d e f (k, v) = Inr n \<and> obj' k = Some (FNum n)"
proof -
  from forEach_written [where step = "add_exchange d e f" and g = "exchange_field d e f"
      and key = fst and w = "\<lambda>k. k \<noteq> ''__proto__''", OF add_exchange_step assms]
  obtain x n where x: "x \<in> set xs" "fst x = k" "exchange_field d e f x = Inr n"
    "obj' k = Some (FNum n)"
    by auto
  from x(1,2) have "(k, snd x) \<in> set xs" by auto
  moreover from x(2,3) have "exchange_field d e f (k, snd x) = Inr n" by auto
  ultimately show ?thesis using x(4) by blast
qed

lemma layer_of_Inr:
  assumes "layer_of mo e mm f d = Inr row"
  obtains obj1 obj2 where
    "forEach (add_production d e f) mo [''datetime'' \<mapsto> FDate (stateDatetime d)] = Inr obj1"
    and "mm = ''consumption'' \<Longrightarrow>
           forEach (add_exchange d e f) (lodash_pairs (exchange d)) obj1 = Inr obj2"
    and "mm \<noteq> ''consumption'' \<Longrightarrow> obj2 = obj1"
    and "row = obj2(''meta'' \<mapsto> FMeta d)"
  using assms unfolding layer_of_def
  by (auto split: sum.splits if_splits)


lemma layer_of_exchange:
  assumes row: "layer_of mo e mm f d = Inr row"
    and mm: "mm = ''consumption''"
    and k: "k \<in> fst ` set (lodash_pairs (exchange d))" "k \<noteq> ''meta''" "k \<noteq> ''__proto__''"
  shows "\<exists>v n. (k, v) \<in> set (lodash_pairs (exchange d)) \<and> exchange_field d e f (k, v) = Inr n \<and>
           row k = Some (FNum n)"
proof -
  from row obtain obj1 obj2 where
    ex: "forEach (add_exchange d e f) (lodash_pairs (exchange d)) obj1 = Inr obj2"
    and r: "row = obj2(''meta'' \<mapsto> FMeta d)"
    using mm by (auto elim!: layer_of_Inr)
  from forEach_exchange_written [OF ex k(1,3)] r k(2) show ?thesis by auto
qed

lemma layer_of_exchange_distinct:
  assumes row: "layer_of mo e mm f d = Inr row"
    and mm: "mm = ''consumption''"
    and dist: "distinct (map fst (or_empty (exchange d)))"
    and k: "(k, v) \<in> set (lodash_pairs (exchange d))" "k \<noteq> ''meta''" "k \<noteq> ''__proto__''"
  shows "\<exists>n. exchange_field d e f (k, v) = Inr n \<and> row k = Some (FNum n)"
proof -
  from k(1) have "k \<in> fst ` set (lodash_pairs (exchange d))" by force
  from layer_of_exchange [OF row mm this k(2,3)] obtain v' n where
    v': "(k, v') \<in> set (lodash_pairs (exchange d))" "exchange_field d e f (k, v') = Inr n"
      "row k = Some (FNum n)"
    by blast
  from lodash_pairs_value [OF dist v'(1)] lodash_pairs_value [OF dist k(1)] have "v' = v" by simp
  with v'(2,3) show ?thesis by auto
qed

lemma layer_of_not_exchange:
  assumes row: "layer_of mo e mm f d = Inr row"
    and k: "k \<noteq> ''meta''"
      "mm \<noteq> ''consumption'' \<or> k \<notin> fst ` set (lodash_pairs (exchange d)) \<or> k = ''__proto__''"
  shows "\<exists>obj1. forEach (add_production d e f) mo [''datetime'' \<mapsto> FDate (stateDatetime d)]
           = Inr obj1 \<and> row k = obj1 k"
proof -
  from row obtain obj1 obj2 where
    pr: "forEach (add_production d e f) mo [''datetime'' \<mapsto> FDate (stateDatetime d)] = Inr obj1"
    and ex: "mm = ''consumption'' \<Longrightarrow>
           forEach (add_exchange d e f) (lodash_pairs (exchange d)) obj1 = Inr obj2"
    and same: "mm \<noteq> ''consumption'' \<Longrightarrow> obj2 = obj1"
    and r: "row = obj2(''meta'' \<mapsto> FMeta d)"
    by (auto elim!: layer_of_Inr)
  have "obj2 k = obj1 k"
  proof (cases "mm = ''consumption''")
    case True
    with k(2) have "k \<notin> fst ` set (lodash_pairs (exchange d)) \<or> k = ''__proto__''" by simp
    from forEach_exchange_frame [OF ex [OF True] this] show ?thesis .
  next
    case False
    with same show ?thesis by simp
  qed
  with r k(1) have "row k = obj1 k" by simp
  with pr show ?thesis by blast
qed

lemma layer_of_category:
  assumes row: "layer_of mo e mm f d = Inr row"
    and k: "k \<in> set mo" "k \<noteq> ''meta''"
      "mm \<noteq> ''consumption'' \<or> k \<notin> fst ` set (lodash_pairs (exchange d)) \<or> k = ''__proto__''"
  shows "\<exists>n. production_field d e f k = Inr n \<and> row k = Some (FNum n)"
proof -
  from layer_of_not_exchange [OF row k(2,3)] obtain obj1 where
    pr: "forEach (add_production d e f) mo [''datetime'' \<mapsto> FDate (stateDatetime d)] = Inr obj1"
    and r: "row k = obj1 k"
    by blast
  from forEach_production_written [OF pr k(1)] r show ?thesis by auto
qed

lemma layer_of_other:
  assumes row: "layer_of mo e mm f d = Inr row"
    and k: "k \<notin> set mo" "k \<noteq> ''meta''"
      "mm \<noteq> ''consumption'' \<or> k \<notin> fst ` set (lodash_pairs (exchange d)) \<or> k = ''__proto__''"
  shows "row k = (if k = ''datetime'' then Some (FDate (stateDatetime d)) else None)"
proof -
  from layer_of_not_exchange [OF row k(2,3)] obtain obj1 where
    pr: "forEach (add_production d e f) mo [''datetime'' \<mapsto> FDate (stateDatetime d)] = Inr obj1"
    and r: "row k = obj1 k"
    by blast
  from forEach_production_frame [OF pr k(1)] r show ?thesis by auto
qed

lemma layer_of_total:
  assumes "\<not> e \<or> tables_present d"
  shows "\<exists>row. layer_of mo e mm f d = Inr row"
proof -
  obtain obj1 where
    pr: "forEach (add_production d e f) mo [''datetime'' \<mapsto> FDate (stateDatetime d)] = Inr obj1"
    using forEach_production_total [OF assms] by blast
  obtain obj2 where
    "forEach (add_exchange d e f) (lodash_pairs (exchange d)) obj1 = Inr obj2"
    using forEach_exchange_total [OF assms] by blast
  with pr show ?thesis by (simp add: layer_of_def)
qed

lemma layer_of_callbacks_return:
  assumes "layer_of mo e mm f d = Inr row"
  shows "k \<in> set mo \<Longrightarrow> \<exists>n. production_field d e f k = Inr n"
    and "mm = ''consumption'' \<Longrightarrow> kv \<in> set (lodash_pairs (exchange d)) \<Longrightarrow>
           \<exists>n. exchange_field d e f kv = Inr n"
proof -
  from assms obtain obj1 obj2 where
    pr: "forEach (add_production d e f) mo [''datetime'' \<mapsto> FDate (stateDatetime d)] = Inr obj1"
    and ex: "mm = ''consumption'' \<Longrightarrow>
           forEach (add_exchange d e f) (lodash_pairs (exchange d)) obj1 = Inr obj2"
    by (auto elim!: layer_of_Inr)
  show "k \<in> set mo \<Longrightarrow> \<exists>n. production_field d e f k = Inr n"
    using forEach_production_written [OF pr] by blast
  show "mm = ''consumption'' \<Longrightarrow> kv \<in> set (lodash_pairs (exchange d)) \<Longrightarrow>
           \<exists>n. exchange_field d e f kv = Inr n"
    using forEach_all_ok [where step = "add_exchange d e f" and g = "exchange_field d e f"
        and key = fst and w = "\<lambda>k. k \<noteq> ''__proto__''", OF add_exchange_step ex]
    by blast
qed

lemma prepare_rows:
  assumes "prepareGraphData sp mo (Some h) cb e mm ek = Inr res" and "h \<noteq> []"
  shows "\<exists>rows. data res = Some rows \<and> length rows = length h \<and>
           layerKeys res = Some (mo @ ek) \<and>
           axisLabel res = Some (valueAxisLabel (getValuesInfo sp h e)) \<and>
           (\<forall>i<length h. layer_of mo e mm (scale_factor sp h e) (h ! i) = Inr (rows ! i))"
proof -
  from assms(2) obtain d0 ds where h: "h = d0 # ds" by (cases h) auto
  from assms(1) obtain rows where
    m: "map_err (layer_of mo e mm (scale_factor sp h e)) h = Inr rows"
    and res: "data res = Some rows" "layerKeys res = Some (mo @ ek)"
      "axisLabel res = Some (valueAxisLabel (getValuesInfo sp h e))"
    unfolding prepareGraphData_def scale_factor_def h
    by (auto simp: Let_def split: sum.splits)
  from map_err_Inr [OF m] res show ?thesis by auto
qed

lemma prepare_total:
  assumes "h \<noteq> []" and "\<not> e \<or> (\<forall>d\<in>set h. tables_present d)"
  shows "\<exists>res. prepareGraphData sp mo (Some h) cb e mm ek = Inr res"
proof -
  from assms(1) obtain d0 ds where h: "h = d0 # ds" by (cases h) auto
  have "\<exists>rows. map_err (layer_of mo e mm (scale_factor sp h e)) h = Inr rows"
    by (rule map_err_total) (use assms(2) in \<open>auto intro: layer_of_total\<close>)
  then show ?thesis
    unfolding prepareGraphData_def scale_factor_def h
    by (auto simp: Let_def split: sum.splits)
qed

lemma returns_row:
  assumes "returns (prepareGraphData sp mo (Some h) cb e mm ek)" and "i < length h"
  shows "\<exists>row. layer_of mo e mm (scale_factor sp h e) (h ! i) = Inr row \<and>
           (\<forall>k. output_field (prepareGraphData sp mo (Some h) cb e mm ek) i k = row k)"
proof -
  from assms(1) obtain res where res: "prepareGraphData sp mo (Some h) cb e mm ek = Inr res"
    by (auto simp: returns_def split: sum.splits)
  from assms(2) have "h \<noteq> []" by auto
  from prepare_rows [OF res this] obtain rows where
    rows: "data res = Some rows" "length rows = length h"
      "\<forall>i<length h. layer_of mo e mm (scale_factor sp h e) (h ! i) = Inr (rows ! i)"
    by auto
  from rows(3) assms(2) have "layer_of mo e mm (scale_factor sp h e) (h ! i) = Inr (rows ! i)"
    by simp
  moreover have "\<forall>k. output_field (prepareGraphData sp mo (Some h) cb e mm ek) i k = (rows ! i) k"
    using rows(1,2) assms(2) by (simp add: output_field_def res)
  ultimately show ?thesis by blast
qed

lemma returns_outputs:
  assumes "returns (prepareGraphData sp mo (Some h) cb e mm ek)" and "h \<noteq> []"
  shows "output_length (prepareGraphData sp mo (Some h) cb e mm ek) = Some (length h)"
    and "output_layerKeys (prepareGraphData sp mo (Some h) cb e mm ek) = Some (mo @ ek)"
    and "output_axisLabel (prepareGraphData sp mo (Some h) cb e mm ek) =
           Some (valueAxisLabel (getValuesInfo sp h e))"
proof -
  from assms(1) obtain res where res: "prepareGraphData sp mo (Some h) cb e mm ek = Inr res"
    by (auto simp: returns_def split: sum.splits)
  from prepare_rows [OF res assms(2)]
  show "output_length (prepareGraphData sp mo (Some h) cb e mm ek) = Some (length h)"
    and "output_layerKeys (prepareGraphData sp mo (Some h) cb e mm ek) = Some (mo @ ek)"
    and "output_axisLabel (prepareGraphData sp mo (Some h) cb e mm ek) =
           Some (valueAxisLabel (getValuesInfo sp h e))"
    by (auto simp: output_length_def output_layerKeys_def output_axisLabel_def res)
qed

lemma returns_total:
  assumes "h \<noteq> []" and "\<not> e \<or> (\<forall>d\<in>set h. tables_present d)"
  shows "returns (prepareGraphData sp mo (Some h) cb e mm ek)"
  using prepare_total [OF assms, of sp mo cb mm ek] by (auto simp: returns_def)

text \<open>The definitions a concrete run unfolds.\<close>

lemmas eval_defs =
  output_field_def output_length_def output_layerKeys_def output_axisLabel_def
  prepareGraphData_def getValuesInfo_def scale_factor_def unit_scale_def
  example_order_def example_record_def bare_record_def layer_of_def add_production_def
  add_exchange_def or_empty_def getProp_def co2_factor_def js_div_def js_ge_def num_ge_def
  num_lt_def num_div_def num_mul_def math_min_def math_max_def signed_zero_def signed_inf_def
  lodash_pairs_def isArrayLike_def isLength_def assign_def

section \<open>When the builder returns and when it throws\<close>

lemma not_returns_TypeError: "\<not> returns r \<Longrightarrow> r = Inl TypeError"
  by (cases r) (auto simp: returns_def intro: js_error.exhaust)

text \<open>
  When emissions are not displayed, or every record of the batch has its three
  intensity tables, \<^verbatim>\<open>prepareGraphData\<close> returns on a batch that is not empty: nothing is
  thrown, whatever entries the tables lack.
\<close>

lemma returns_with_tables:
  assumes "h \<noteq> []" and "\<not> e \<or> (\<forall>d\<in>set h. tables_present d)"
  shows "returns (prepareGraphData scalePower modeOrder (Some h) cb e mm ek) \<and>
         output_length (prepareGraphData scalePower modeOrder (Some h) cb e mm ek)
           = Some (length h)"
proof -
  have "returns (prepareGraphData scalePower modeOrder (Some h) cb e mm ek)"
    using assms by (rule returns_total)
  with returns_outputs(1) [OF _ assms(1)] show ?thesis by simp
qed

lemma returns_with_tables_witness:
  "[example_record (- 40) False, bare_record] \<noteq> [] \<and>
   tables_present (example_record (- 40) False) \<and> tables_present bare_record \<and>
   returns (prepareGraphData unit_scale example_order
      (Some [example_record (- 40) False, bare_record]) False True ''consumption'' [''US'']) \<and>
   output_length (prepareGraphData unit_scale example_order
      (Some [example_record (- 40) False, bare_record]) False True ''consumption'' [''US''])
     = Some (length [example_record (- 40) False, bare_record])"
proof -
  have n: "[example_record (- 40) False, bare_record] \<noteq> []" by simp
  have t: "tables_present (example_record (- 40) False)" "tables_present bare_record"
    by (simp_all add: tables_present_def example_record_def bare_record_def)
  have r: "returns (prepareGraphData unit_scale example_order
      (Some [example_record (- 40) False, bare_record]) False True ''consumption'' [''US'']) \<and>
   output_length (prepareGraphData unit_scale example_order
      (Some [example_record (- 40) False, bare_record]) False True ''consumption'' [''US''])
     = Some (length [example_record (- 40) False, bare_record])"
    using returns_with_tables [OF n, of True unit_scale example_order False "''consumption''"
        "[''US'']"] t
    by simp
  from r show ?thesis by (intro conjI n t conjunct1 [OF r] conjunct2 [OF r])
qed

text \<open>
  With emissions displayed, a record whose production-intensity table is absent and which
  has a finite production value for a generation category of the category order makes
  \<^verbatim>\<open>prepareGraphData\<close> throw a \<^verbatim>\<open>TypeError\<close>; so does, in mode \<^verbatim>\<open>consumption\<close>, a
  record whose exchange-intensity table is absent and whose exchange loop visits a finite
  value.
\<close>

lemma absent_table_throws:
  assumes "d \<in> set h"
    and "(k \<in> set modeOrder \<and> \<not> is_storage k \<and> isFinite (raw_value d k) \<and>
          productionCo2Intensities d = None) \<or>
         (mm = ''consumption'' \<and> (k, v) \<in> set (lodash_pairs (exchange d)) \<and> isFinite v \<and>
          exchangeCo2Intensities d = None)"
  shows "prepareGraphData scalePower modeOrder (Some h) cb True mm ek = Inl TypeError"
proof (rule not_returns_TypeError, rule notI)
  let ?f = "scale_factor scalePower h True"
  assume r: "returns (prepareGraphData scalePower modeOrder (Some h) cb True mm ek)"
  from assms(1) obtain i where i: "i < length h" "h ! i = d"
    by (auto simp: in_set_conv_nth)
  from returns_row [OF r i(1)] i(2) obtain row where
    row: "layer_of modeOrder True mm ?f d = Inr row"
    by auto
  from assms(2) show False
  proof
    assume a: "k \<in> set modeOrder \<and> \<not> is_storage k \<and> isFinite (raw_value d k) \<and>
          productionCo2Intensities d = None"
    then have "production_field d True ?f k = Inl TypeError"
      by (auto simp: production_field_def add_production_def raw_value_def is_storage_def Let_def)
    with layer_of_callbacks_return(1) [OF row, of k] a show False by auto
  next
    assume a: "mm = ''consumption'' \<and> (k, v) \<in> set (lodash_pairs (exchange d)) \<and> isFinite v \<and>
          exchangeCo2Intensities d = None"
    then have "exchange_field d True ?f (k, v) = Inl TypeError"
      by (auto simp: exchange_field_def add_exchange_def Let_def)
    with layer_of_callbacks_return(2) [OF row, of "(k, v)"] a show False by auto
  qed
qed

lemma absent_table_throws_witness:
  "''gas'' \<in> set example_order \<and> \<not> is_storage ''gas'' \<and>
   isFinite (raw_value ((example_record 40 False)\<lparr>productionCo2Intensities := None\<rparr>) ''gas'') \<and>
   productionCo2Intensities ((example_record 40 False)\<lparr>productionCo2Intensities := None\<rparr>) = None \<and>
   prepareGraphData unit_scale example_order
      (Some [(example_record 40 False)\<lparr>productionCo2Intensities := None\<rparr>])
      False True ''production'' [] = Inl TypeError"
proof -
  let ?d = "(example_record 40 False)\<lparr>productionCo2Intensities := None\<rparr>"
  have g: "''gas'' \<in> set example_order" "\<not> is_storage ''gas''"
    by (simp_all add: example_order_def is_storage_def)
  have f: "isFinite (raw_value ?d ''gas'')"
    by (simp add: raw_value_def is_storage_def example_record_def or_empty_def getProp_def)
  have p: "productionCo2Intensities ?d = None" by simp
  have t: "prepareGraphData unit_scale example_order (Some [?d]) False True ''production'' []
      = Inl TypeError"
    by (rule absent_table_throws [where d = ?d and k = "''gas''"]) (use g f p in simp_all)
  show ?thesis by (intro conjI g f p t)
qed

text \<open>
  Two exchange objects that the loop does not walk key by key. An object with a valid
  \<^verbatim>\<open>length\<close>, here \<^verbatim>\<open>{length: 2, US: 30}\<close>, is walked by index: the output record gets
  the fields \<^verbatim>\<open>0\<close> and \<^verbatim>\<open>1\<close>, both \<open>NaN\<close>, and no field \<^verbatim>\<open>US\<close>. Under the own
  property \<^verbatim>\<open>__proto__\<close>, here in \<^verbatim>\<open>{"__proto__": 5, "US": 30}\<close>, nothing is stored.
\<close>

lemma decimal_examples: "decimal 0 = ''0''" "decimal 1 = ''1''" "decimal 12 = ''12''"
  by (simp_all add: decimal.simps digit_def)

lemma array_like_exchange_example:
  "lodash_pairs (Some [(''length'', Number (Fin 2)), (''US'', Number (Fin 30))])
     = [(''0'', Undefined), (''1'', Undefined)] \<and>
   output_field (prepareGraphData unit_scale example_order
      (Some [(example_record 40 False)
         \<lparr>exchange := Some [(''length'', Number (Fin 2)), (''US'', Number (Fin 30))]\<rparr>])
      False False ''consumption'' [''US'']) 0 ''0'' = Some (FNum NaN) \<and>
   output_field (prepareGraphData unit_scale example_order
      (Some [(example_record 40 False)
         \<lparr>exchange := Some [(''length'', Number (Fin 2)), (''US'', Number (Fin 30))]\<rparr>])
      False False ''consumption'' [''US'']) 0 ''1'' = Some (FNum NaN) \<and>
   output_field (prepareGraphData unit_scale example_order
      (Some [(example_record 40 False)
         \<lparr>exchange := Some [(''length'', Number (Fin 2)), (''US'', Number (Fin 30))]\<rparr>])
      False False ''consumption'' [''US'']) 0 ''US'' = None"
  by (simp add: eval_defs decimal.simps digit_def upt_rec)

lemma proto_exchange_example:
  "output_field (prepareGraphData unit_scale example_order
      (Some [(example_record 40 False)
         \<lparr>exchange := Some [(''__proto__'', Number (Fin 5)), (''US'', Number (Fin 30))]\<rparr>])
      False False ''consumption'' [''US'']) 0 ''__proto__'' = None \<and>
   output_field (prepareGraphData unit_scale example_order
      (Some [(example_record 40 False)
         \<lparr>exchange := Some [(''__proto__'', Number (Fin 5)), (''US'', Number (Fin 30))]\<rparr>])
      False False ''consumption'' [''US'']) 0 ''US'' = Some (FNum (Fin 30))"
  by (simp add: eval_defs)

section \<open>The claims\<close>

text \<open>
  C5. For an absent batch and for an empty batch, \<^verbatim>\<open>prepareGraphData\<close> returns the empty
  object: it has no data array, no layer keys, no fill function and no axis label, and
  nothing is thrown.
\<close>

theorem empty_batch_gives_empty_object:
  "prepareGraphData scalePower modeOrder None cb e mm ek = Inr empty_object \<and>
   prepareGraphData scalePower modeOrder (Some []) cb e mm ek = Inr empty_object \<and>
   data empty_object = None \<and> layerKeys empty_object = None \<and>
   layerFill empty_object = None \<and> axisLabel empty_object = None"
  by (simp add: prepareGraphData_def empty_object_def)



text \<open>
  C2, as the code has it. For a record with \<^verbatim>\<open>production.gas = 100\<close>, the net storage
  \<^verbatim>\<open>storage.battery = b\<close> and the exchange object \<^verbatim>\<open>{US: 30}\<close>, a scale factor of 1,
  the mode \<^verbatim>\<open>consumption\<close> and no display of emissions, the output record has
  \<^verbatim>\<open>gas = 100\<close> and \<^verbatim>\<open>US = 30\<close>, and its battery storage is \<open>- b\<close> when \<open>b\<close> is
  negative and the (negative) zero otherwise: a net storage of \<open>-40\<close> gives 40, a net
  storage of \<open>+40\<close> gives zero.
\<close>

theorem example_layers:
  assumes "scale_factor scalePower [d] False = Number (Fin 1)"
    and "getProp (or_empty (production d)) ''gas'' = Number (Fin 100)"
    and "getProp (or_empty (storage d)) ''battery'' = Number (Fin b)"
    and "or_empty (exchange d) = [(''US'', Number (Fin 30))]"
    and "''gas'' \<in> set modeOrder" and "''battery storage'' \<in> set modeOrder"
  shows "output_field (prepareGraphData scalePower modeOrder (Some [d]) cb False
             ''consumption'' ek) 0 ''gas'' = Some (FNum (Fin 100)) \<and>
         output_field (prepareGraphData scalePower modeOrder (Some [d]) cb False
             ''consumption'' ek) 0 ''battery storage''
           = Some (FNum (if b < 0 then Fin (- b) else NZero)) \<and>
         output_field (prepareGraphData scalePower modeOrder (Some [d]) cb False
             ''consumption'' ek) 0 ''US'' = Some (FNum (Fin 30))"
proof -
  let ?R = "prepareGraphData scalePower modeOrder (Some [d]) cb False ''consumption'' ek"
  let ?f = "scale_factor scalePower [d] False"
  have r: "returns ?R" by (rule returns_total) simp_all
  from returns_row [OF r, of 0] obtain row where
    row: "layer_of modeOrder False ''consumption'' ?f d = Inr row"
    and out: "\<And>k. output_field ?R 0 k = row k"
    by auto
  from assms(4) have own: "exchange d = Some [(''US'', Number (Fin 30))]"
    by (cases "exchange d") (simp_all add: or_empty_def)
  then have pairs: "lodash_pairs (exchange d) = [(''US'', Number (Fin 30))]"
    by (simp add: lodash_pairs_def isArrayLike_def isLength_def getProp_def)
  have gas: "row ''gas'' = Some (FNum (Fin 100))"
  proof -
    from layer_of_category [OF row assms(5)] pairs obtain n where
      "production_field d False ?f ''gas'' = Inr n" "row ''gas'' = Some (FNum n)"
      by auto
    moreover have "production_field d False ?f ''gas'' = Inr (Fin 100)"
      by (simp add: production_field_def add_production_def assms(1,2) js_div_def num_div_def)
    ultimately show ?thesis by simp
  qed
  have bat: "row ''battery storage'' = Some (FNum (if b < 0 then Fin (- b) else NZero))"
  proof -
    from layer_of_category [OF row assms(6)] pairs obtain n where
      "production_field d False ?f ''battery storage'' = Inr n"
      "row ''battery storage'' = Some (FNum n)"
      by auto
    moreover have "production_field d False ?f ''battery storage''
        = Inr (if b < 0 then Fin (- b) else NZero)"
      by (simp add: production_field_def add_production_def assms(1,3) js_div_def num_div_def
          num_mul_def math_min_def num_lt_def signed_zero_def)
    ultimately show ?thesis by simp
  qed
  have us: "row ''US'' = Some (FNum (Fin 30))"
  proof -
    from layer_of_exchange_distinct [OF row refl, of "''US''" "Number (Fin 30)"] assms(4) pairs
    obtain n where
      "exchange_field d False ?f (''US'', Number (Fin 30)) = Inr n" "row ''US'' = Some (FNum n)"
      by auto
    moreover have "exchange_field d False ?f (''US'', Number (Fin 30)) = Inr (Fin 30)"
      by (simp add: exchange_field_def assms(1) js_div_def num_div_def math_max_def num_lt_def)
    ultimately show ?thesis by simp
  qed
  from gas bat us show ?thesis by (simp add: out)
qed

theorem example_layers_witness:
  "scale_factor unit_scale [example_record 40 False] False = Number (Fin 1) \<and>
   getProp (or_empty (production (example_record 40 False))) ''gas'' = Number (Fin 100) \<and>
   getProp (or_empty (storage (example_record 40 False))) ''battery'' = Number (Fin 40) \<and>
   or_empty (exchange (example_record 40 False)) = [(''US'', Number (Fin 30))] \<and>
   output_field (prepareGraphData unit_scale example_order (Some [example_record 40 False])
      False False ''consumption'' [''US'']) 0 ''gas'' = Some (FNum (Fin 100)) \<and>
   output_field (prepareGraphData unit_scale example_order (Some [example_record 40 False])
      False False ''consumption'' [''US'']) 0 ''battery storage'' = Some (FNum NZero) \<and>
   output_field (prepareGraphData unit_scale example_order (Some [example_record 40 False])
      False False ''consumption'' [''US'']) 0 ''US'' = Some (FNum (Fin 30))"
proof -
  have a: "scale_factor unit_scale [example_record 40 False] False = Number (Fin 1)"
    by (simp add: scale_factor_def getValuesInfo_def unit_scale_def)
  have b: "getProp (or_empty (production (example_record 40 False))) ''gas'' = Number (Fin 100)"
    "getProp (or_empty (storage (example_record 40 False))) ''battery'' = Number (Fin 40)"
    "or_empty (exchange (example_record 40 False)) = [(''US'', Number (Fin 30))]"
    by (simp_all add: example_record_def or_empty_def getProp_def)
  have c: "''gas'' \<in> set example_order" "''battery storage'' \<in> set example_order"
    by (simp_all add: example_order_def)
  from example_layers [OF a b c, of False "[''US'']"] a b show ?thesis by simp
qed

theorem charging_example_counterexample:
  "output_field (prepareGraphData unit_scale example_order (Some [example_record (- 40) False])
      False False ''consumption'' [''US'']) 0 ''battery storage'' = Some (FNum (Fin 40))"
  by (simp add: eval_defs)

lemma production_field_non_finite:
  assumes "\<not> isFinite (raw_value d k)"
  shows "production_field d e f k = Inr (js_div (raw_value d k) f)"
  using assms
  by (cases "is_storage k")
     (auto simp: production_field_def add_production_def raw_value_def is_storage_def
        storage_key_def Let_def)

lemma exchange_field_non_finite:
  assumes "\<not> isFinite v"
  shows "exchange_field d e f (k, v) = Inr (math_max (Fin 0) (js_div v f))"
  using assms by (simp add: exchange_field_def)

lemma production_field_no_intensity:
  assumes "pos_finite f" and "isFinite (raw_value d k)"
    and "category_intensity d k = Undefined"
    and "production_field d True f k = Inr n"
  shows "n = NaN"
proof -
  from production_field_expected [OF assms(1,4)] assms(2,3) show ?thesis
    by (simp add: expected_category_value_def co2_factor_Undefined num_mul_NaN)
qed

text \<open>
  C3, as the code has it. With emissions displayed, a key whose raw value is not finite is
  not converted: its callback returns normally and the field is the raw value divided by
  the scale factor (floored at zero for an exchange key). A key whose raw value is finite
  is converted whether or not its intensity is there: when the intensity table has no
  entry for it, the field is \<open>NaN\<close>. (The key is not \<^verbatim>\<open>meta\<close>; a category key is not
  overwritten by the exchange loop; an exchange key is one the exchange loop visits, other
  than \<^verbatim>\<open>__proto__\<close>, in an exchange object whose properties have distinct names; for the
  category whose intensity is missing, the scale factor is a finite number above zero.)
\<close>

theorem conversion_skipped_only_when_not_finite:
  assumes "returns (prepareGraphData scalePower modeOrder (Some h) cb True mm ek)"
    and "i < length h" and "k \<noteq> ''meta''"
  shows
    "(k \<in> set modeOrder \<and>
      (mm \<noteq> ''consumption'' \<or> k \<notin> fst ` set (lodash_pairs (exchange (h ! i)))) \<and>
      \<not> isFinite (raw_value (h ! i) k) \<longrightarrow>
        production_field (h ! i) True (scale_factor scalePower h True) k
          = Inr (js_div (raw_value (h ! i) k) (scale_factor scalePower h True)) \<and>
        output_field (prepareGraphData scalePower modeOrder (Some h) cb True mm ek) i k
          = Some (FNum (js_div (raw_value (h ! i) k) (scale_factor scalePower h True)))) \<and>
     (k \<in> set modeOrder \<and>
      (mm \<noteq> ''consumption'' \<or> k \<notin> fst ` set (lodash_pairs (exchange (h ! i)))) \<and>
      isFinite (raw_value (h ! i) k) \<and> pos_finite (scale_factor scalePower h True) \<and>
      category_intensity (h ! i) k = Undefined \<longrightarrow>
        output_field (prepareGraphData scalePower modeOrder (Some h) cb True mm ek) i k
          = Some (FNum NaN)) \<and>
     (mm = ''consumption'' \<and> distinct (map fst (or_empty (exchange (h ! i)))) \<and>
      (k, v) \<in> set (lodash_pairs (exchange (h ! i))) \<and> k \<noteq> ''__proto__'' \<and> \<not> isFinite v \<longrightarrow>
        exchange_field (h ! i) True (scale_factor scalePower h True) (k, v)
          = Inr (math_max (Fin 0) (js_div v (scale_factor scalePower h True))) \<and>
        output_field (prepareGraphData scalePower modeOrder (Some h) cb True mm ek) i k
          = Some (FNum (math_max (Fin 0) (js_div v (scale_factor scalePower h True))))) \<and>
     (mm = ''consumption'' \<and> distinct (map fst (or_empty (exchange (h ! i)))) \<and>
      (k, v) \<in> set (lodash_pairs (exchange (h ! i))) \<and> k \<noteq> ''__proto__'' \<and> isFinite v \<and>
      getProp (or_empty (exchangeCo2Intensities (h ! i))) k = Undefined \<longrightarrow>
        output_field (prepareGraphData scalePower modeOrder (Some h) cb True mm ek) i k
          = Some (FNum NaN))"
proof -
  let ?f = "scale_factor scalePower h True"
  let ?d = "h ! i"
  let ?R = "prepareGraphData scalePower modeOrder (Some h) cb True mm ek"
  from returns_row [OF assms(1,2)] obtain row where
    row: "layer_of modeOrder True mm ?f ?d = Inr row"
    and out: "\<And>k. output_field ?R i k = row k"
    by blast
  have cat: "\<exists>n. production_field ?d True ?f k = Inr n \<and> row k = Some (FNum n)"
    if "k \<in> set modeOrder" "mm \<noteq> ''consumption'' \<or> k \<notin> fst ` set (lodash_pairs (exchange ?d))"
  proof -
    from that(2) have "mm \<noteq> ''consumption'' \<or> k \<notin> fst ` set (lodash_pairs (exchange ?d)) \<or>
        k = ''__proto__''"
      by blast
    from layer_of_category [OF row that(1) assms(3) this] show ?thesis .
  qed
  have exc: "\<exists>n. exchange_field ?d True ?f (k, v) = Inr n \<and> row k = Some (FNum n)"
    if "mm = ''consumption''" "distinct (map fst (or_empty (exchange ?d)))"
      "(k, v) \<in> set (lodash_pairs (exchange ?d))" "k \<noteq> ''__proto__''"
    using layer_of_exchange_distinct [OF row that(1,2,3) assms(3) that(4)] .
  have 1: "production_field ?d True ?f k = Inr (js_div (raw_value ?d k) ?f) \<and>
           output_field ?R i k = Some (FNum (js_div (raw_value ?d k) ?f))"
    if "k \<in> set modeOrder" "mm \<noteq> ''consumption'' \<or> k \<notin> fst ` set (lodash_pairs (exchange ?d))"
      "\<not> isFinite (raw_value ?d k)"
    using cat [OF that(1,2)] production_field_non_finite [OF that(3), of True ?f]
    by (auto simp: out)
  have 2: "output_field ?R i k = Some (FNum NaN)"
    if "k \<in> set modeOrder" "mm \<noteq> ''consumption'' \<or> k \<notin> fst ` set (lodash_pairs (exchange ?d))"
      "isFinite (raw_value ?d k)" "pos_finite ?f" "category_intensity ?d k = Undefined"
    using cat [OF that(1,2)] production_field_no_intensity [OF that(4,3,5)]
    by (auto simp: out)
  have 3: "exchange_field ?d True ?f (k, v) = Inr (math_max (Fin 0) (js_div v ?f)) \<and>
           output_field ?R i k = Some (FNum (math_max (Fin 0) (js_div v ?f)))"
    if "mm = ''consumption''" "distinct (map fst (or_empty (exchange ?d)))"
      "(k, v) \<in> set (lodash_pairs (exchange ?d))" "k \<noteq> ''__proto__''" "\<not> isFinite v"
    using exc [OF that(1,2,3,4)] exchange_field_non_finite [OF that(5), of ?d True ?f k]
    by (auto simp: out)
  have 4: "output_field ?R i k = Some (FNum NaN)"
    if "mm = ''consumption''" "distinct (map fst (or_empty (exchange ?d)))"
      "(k, v) \<in> set (lodash_pairs (exchange ?d))" "k \<noteq> ''__proto__''" "isFinite v"
      "getProp (or_empty (exchangeCo2Intensities ?d)) k = Undefined"
    using exc [OF that(1,2,3,4)] exchange_field_no_intensity [OF that(5,6)]
    by (auto simp: out)
  from 1 2 3 4 show ?thesis by blast
qed

theorem conversion_skipped_only_when_not_finite_witness:
  "returns (prepareGraphData unit_scale example_order
      (Some [example_record (- 40) False, bare_record]) False True ''consumption'' [''US'']) \<and>
   \<not> isFinite (raw_value ([example_record (- 40) False, bare_record] ! 1) ''gas'') \<and>
   output_field (prepareGraphData unit_scale example_order
      (Some [example_record (- 40) False, bare_record]) False True ''consumption'' [''US''])
      1 ''gas''
     = Some (FNum (js_div (raw_value ([example_record (- 40) False, bare_record] ! 1) ''gas'')
         (scale_factor unit_scale [example_record (- 40) False, bare_record] True))) \<and>
   isFinite (raw_value ([example_record (- 40) False, bare_record] ! 0) ''gas'') \<and>
   category_intensity ([example_record (- 40) False, bare_record] ! 0) ''gas'' = Undefined \<and>
   output_field (prepareGraphData unit_scale example_order
      (Some [example_record (- 40) False, bare_record]) False True ''consumption'' [''US''])
      0 ''gas'' = Some (FNum NaN) \<and>
   (''DE'', Null) \<in> set (lodash_pairs (exchange ([example_record (- 40) False, bare_record] ! 1))) \<and>
   \<not> isFinite Null \<and>
   output_field (prepareGraphData unit_scale example_order
      (Some [example_record (- 40) False, bare_record]) False True ''consumption'' [''US''])
      1 ''DE''
     = Some (FNum (math_max (Fin 0) (js_div Null
         (scale_factor unit_scale [example_record (- 40) False, bare_record] True)))) \<and>
   (''US'', Number (Fin 30))
     \<in> set (lodash_pairs (exchange ([example_record (- 40) False, bare_record] ! 0))) \<and>
   isFinite (Number (Fin 30)) \<and>
   getProp (or_empty (exchangeCo2Intensities ([example_record (- 40) False, bare_record] ! 0)))
     ''US'' = Undefined \<and>
   output_field (prepareGraphData unit_scale example_order
      (Some [example_record (- 40) False, bare_record]) False True ''consumption'' [''US''])
      0 ''US'' = Some (FNum NaN)"
proof -
  let ?h = "[example_record (- 40) False, bare_record]"
  let ?R = "prepareGraphData unit_scale example_order (Some ?h) False True ''consumption'' [''US'']"
  have r: "returns ?R"
    by (rule returns_total) (simp_all add: tables_present_def example_record_def bare_record_def)
  have p: "pos_finite (scale_factor unit_scale ?h True)"
    by (simp add: pos_finite_def scale_factor_def getValuesInfo_def unit_scale_def)
  have g: "''gas'' \<in> set example_order" by (simp add: example_order_def)
  have a1: "''gas'' \<notin> fst ` set (lodash_pairs (exchange (?h ! 1)))"
    and a0: "''gas'' \<notin> fst ` set (lodash_pairs (exchange (?h ! 0)))"
    by (simp_all add: bare_record_def example_record_def lodash_pairs_def isArrayLike_def
        isLength_def getProp_def)
  have n1: "\<not> isFinite (raw_value (?h ! 1) ''gas'')"
    by (simp add: raw_value_def is_storage_def bare_record_def or_empty_def getProp_def)
  have f0: "isFinite (raw_value (?h ! 0) ''gas'')"
    and i0: "category_intensity (?h ! 0) ''gas'' = Undefined"
    by (simp_all add: raw_value_def category_intensity_def is_storage_def example_record_def
        or_empty_def getProp_def)
  have d1: "distinct (map fst (or_empty (exchange (?h ! 1))))"
    and m1: "(''DE'', Null) \<in> set (lodash_pairs (exchange (?h ! 1)))"
    by (simp_all add: bare_record_def or_empty_def lodash_pairs_def isArrayLike_def
        isLength_def getProp_def)
  have nn: "\<not> isFinite Null" by simp
  have t1: "output_field ?R 1 ''gas''
      = Some (FNum (js_div (raw_value (?h ! 1) ''gas'') (scale_factor unit_scale ?h True)))"
    using conversion_skipped_only_when_not_finite [OF r, of 1 "''gas''"] g a1 n1 by simp
  have t2: "output_field ?R 0 ''gas'' = Some (FNum NaN)"
    using conversion_skipped_only_when_not_finite [OF r, of 0 "''gas''"] g a0 f0 i0 p by simp
  have t3: "output_field ?R 1 ''DE''
      = Some (FNum (math_max (Fin 0) (js_div Null (scale_factor unit_scale ?h True))))"
    using conversion_skipped_only_when_not_finite [OF r, of 1 "''DE''" Null] d1 m1 by simp
  have d0: "distinct (map fst (or_empty (exchange (?h ! 0))))"
    and m0: "(''US'', Number (Fin 30)) \<in> set (lodash_pairs (exchange (?h ! 0)))"
    and u0: "getProp (or_empty (exchangeCo2Intensities (?h ! 0))) ''US'' = Undefined"
    by (simp_all add: example_record_def or_empty_def getProp_def lodash_pairs_def
        isArrayLike_def isLength_def)
  have fu: "isFinite (Number (Fin 30))" by simp
  have t4: "output_field ?R 0 ''US'' = Some (FNum NaN)"
    using conversion_skipped_only_when_not_finite [OF r, of 0 "''US''" "Number (Fin 30)"]
      d0 m0 u0
    by simp
  show ?thesis by (intro conjI r n1 t1 f0 i0 t2 m1 nn t3 m0 fu u0 t4)
qed

theorem missing_intensity_counterexample:
  "output_field (prepareGraphData unit_scale example_order (Some [example_record (- 40) False])
      False True ''consumption'' [''US'']) 0 ''gas'' = Some (FNum NaN) \<and>
   js_div (raw_value (example_record (- 40) False) ''gas'')
      (scale_factor unit_scale [example_record (- 40) False] True) = Fin 100"
  by (simp add: eval_defs raw_value_def is_storage_def)

lemma js_lt_above:
  assumes "js_lt a v" and "\<not> js_lt r v"
  shows "\<not> js_lt r a"
  using assms
  by (cases "to_number a"; cases "to_number v"; cases "to_number r")
     (auto simp: js_lt_def num_lt_def)

lemma js_lt_below:
  assumes "\<not> js_lt r a" and "\<not> js_lt a v" and "comparable a"
  shows "\<not> js_lt r v"
  using assms
  by (cases "to_number a"; cases "to_number v"; cases "to_number r")
     (auto simp: js_lt_def num_lt_def comparable_def js_ge_def num_ge_def)

lemma js_lt_comparable:
  assumes "js_lt a v" and "not_nullish v"
  shows "comparable v"
  using assms
  by (cases "to_number a"; cases "to_number v")
     (auto simp: js_lt_def num_lt_def comparable_def js_ge_def num_ge_def)

lemma comparable_not_Undefined: "comparable v \<Longrightarrow> v \<noteq> Undefined"
  by (auto simp: comparable_def)

lemma js_lt_Undefined: "\<not> js_lt Undefined v" "\<not> js_lt r Undefined"
  by (simp_all add: js_lt_def num_lt_def)

lemma d3Max_step_cases:
  assumes "acc = Undefined \<or> comparable acc"
  shows "(d3Max_step acc v = v \<and> comparable v \<and> (js_lt acc v \<or> acc = Undefined)) \<or>
         (d3Max_step acc v = acc \<and> (comparable v \<longrightarrow> comparable acc \<and> \<not> js_lt acc v))"
proof (cases "not_nullish v \<and> (js_lt acc v \<or> (acc = Undefined \<and> js_ge v v))")
  case True
  then have "comparable v" by (auto simp: comparable_def dest: js_lt_comparable)
  with True show ?thesis by (auto simp: d3Max_step_def)
next
  case False
  then have "d3Max_step acc v = acc" by (auto simp: d3Max_step_def)
  moreover have "comparable acc \<and> \<not> js_lt acc v" if "comparable v"
    using that False assms by (auto simp: comparable_def)
  ultimately show ?thesis by blast
qed

lemma foldl_d3Max:
  assumes "acc = Undefined \<or> comparable acc"
  shows "(foldl d3Max_step acc vs = acc \<or> foldl d3Max_step acc vs \<in> set vs) \<and>
         (foldl d3Max_step acc vs = Undefined \<or> comparable (foldl d3Max_step acc vs)) \<and>
         (foldl d3Max_step acc vs = Undefined \<longrightarrow>
            acc = Undefined \<and> (\<forall>v\<in>set vs. \<not> comparable v)) \<and>
         \<not> js_lt (foldl d3Max_step acc vs) acc \<and>
         (\<forall>v\<in>set vs. comparable v \<longrightarrow> \<not> js_lt (foldl d3Max_step acc vs) v)"
  using assms
proof (induction vs arbitrary: acc)
  case Nil
  then show ?case
    by (cases "to_number acc") (auto simp: js_lt_def num_lt_def)
next
  case (Cons v vs)
  let ?a = "d3Max_step acc v"
  let ?r = "foldl d3Max_step ?a vs"
  from d3Max_step_cases [OF Cons.prems, of v]
  consider (taken) "?a = v" "comparable v" "js_lt acc v \<or> acc = Undefined"
    | (kept) "?a = acc" "comparable v \<longrightarrow> comparable acc \<and> \<not> js_lt acc v"
    by blast
  then show ?case
  proof cases
    case taken
    then have ok: "?a = Undefined \<or> comparable ?a" by simp
    note ih = Cons.IH [OF ok]
    from ih taken(1) have notlt: "\<not> js_lt ?r v" by simp
    have "\<not> js_lt ?r acc"
      using taken(3) notlt by (auto dest: js_lt_above simp: js_lt_Undefined)
    moreover from ih taken(1,2) have "?r \<noteq> Undefined"
      by (auto dest: comparable_not_Undefined)
    ultimately show ?thesis
      using ih taken(1,2) notlt by auto
  next
    case kept
    then have ok: "?a = Undefined \<or> comparable ?a" using Cons.prems by simp
    note ih = Cons.IH [OF ok]
    have "\<not> js_lt ?r v" if "comparable v"
    proof -
      from kept(2) that have "comparable acc" "\<not> js_lt acc v" by auto
      moreover from ih kept(1) have "\<not> js_lt ?r acc" by simp
      ultimately show ?thesis by (auto dest: js_lt_below)
    qed
    moreover have "acc \<noteq> Undefined" if "comparable v"
      using kept(2) that by (auto dest: comparable_not_Undefined)
    ultimately show ?thesis
      using ih kept(1) by auto
  qed
qed

lemma d3Max_is_peak: "is_peak (d3Max vs) vs"
proof -
  from foldl_d3Max [of Undefined vs]
  have 1: "d3Max vs = Undefined \<or> d3Max vs \<in> set vs"
    and 2: "d3Max vs = Undefined \<or> comparable (d3Max vs)"
    and 3: "d3Max vs = Undefined \<longrightarrow> (\<forall>v\<in>set vs. \<not> comparable v)"
    and 4: "\<forall>v\<in>set vs. comparable v \<longrightarrow> \<not> js_lt (d3Max vs) v"
    by (simp_all add: d3Max_def)
  show ?thesis
  proof (cases "d3Max vs = Undefined")
    case True
    with 3 show ?thesis by (simp add: is_peak_def)
  next
    case False
    with 1 2 4 show ?thesis by (simp add: is_peak_def)
  qed
qed

lemma per_minute_num:
  "per_minute v =
     Number (case to_number v of Fin a \<Rightarrow> Fin (a / 60000000) | n \<Rightarrow> n)"
  by (cases "to_number v")
     (auto simp: per_minute_def js_div_def num_div_def signed_zero_def signed_inf_def)

lemma per_minute_lt: "js_lt (per_minute a) (per_minute b) = js_lt a b"
  by (cases "to_number a"; cases "to_number b")
     (auto simp: per_minute_num js_lt_def num_lt_def divide_less_cancel)

lemma per_minute_comparable: "not_nullish v \<Longrightarrow> comparable (per_minute v) = comparable v"
  by (cases "to_number v")
     (auto simp: per_minute_num comparable_def js_ge_def num_ge_def num_lt_def)

lemma peak_per_minute_step:
  assumes "not_nullish v" and "acc = Undefined \<or> comparable acc"
  shows "d3Max_step (peak_per_minute acc) (per_minute v) = peak_per_minute (d3Max_step acc v)"
proof (cases "acc = Undefined")
  case True
  with assms(1) per_minute_comparable [OF assms(1)] show ?thesis
    by (cases v)
       (auto simp: d3Max_step_def peak_per_minute_def js_lt_Undefined comparable_def
          per_minute_def)
next
  case False
  then have pa: "peak_per_minute acc = per_minute acc"
    by (cases acc) (simp_all add: peak_per_minute_def)
  have pv: "peak_per_minute v = per_minute v"
    using assms(1) by (cases v) (simp_all add: peak_per_minute_def)
  have nn: "not_nullish (per_minute v)" "per_minute acc \<noteq> Undefined"
    by (simp_all add: per_minute_def)
  show ?thesis
    using False assms(1) nn
    by (simp add: d3Max_step_def pa pv per_minute_lt)
qed

lemma foldl_d3Max_per_minute:
  assumes "\<forall>v\<in>set vs. not_nullish v" and "acc = Undefined \<or> comparable acc"
  shows "foldl d3Max_step (peak_per_minute acc) (map per_minute vs)
           = peak_per_minute (foldl d3Max_step acc vs)"
  using assms
proof (induction vs arbitrary: acc)
  case Nil
  then show ?case by simp
next
  case (Cons v vs)
  from Cons.prems have v: "not_nullish v" and rest: "\<forall>v\<in>set vs. not_nullish v" by simp_all
  from d3Max_step_cases [OF Cons.prems(2), of v] Cons.prems(2)
  have ok: "d3Max_step acc v = Undefined \<or> comparable (d3Max_step acc v)" by auto
  from Cons.IH [OF rest ok] peak_per_minute_step [OF v Cons.prems(2)] show ?case by simp
qed

lemma d3Max_per_minute:
  assumes "\<forall>v\<in>set vs. not_nullish v"
  shows "d3Max (map per_minute vs) = peak_per_minute (d3Max vs)"
  using foldl_d3Max_per_minute [OF assms, of Undefined]
  by (simp add: d3Max_def peak_per_minute_def)

lemma per_minute_divided:
  assumes "p = Undefined \<or> comparable p"
  shows "peak_per_minute p = divided_peak p"
proof (cases p)
  case Undefined
  then show ?thesis by (simp add: peak_per_minute_def divided_peak_def)
next
  case Null
  with assms show ?thesis by (simp add: comparable_def)
next
  case (Number n)
  with assms have "n \<noteq> NaN" by (auto simp: comparable_def js_ge_def num_ge_def)
  with Number show ?thesis
    by (cases n) (simp_all add: peak_per_minute_def divided_peak_def per_minute_num)
qed

lemma d3Max_Undefined_or_comparable: "d3Max vs = Undefined \<or> comparable (d3Max vs)"
  using d3Max_is_peak [of vs] by (auto simp: is_peak_def)

text \<open>
  C4. The value-scale selector takes the peak over the batch of each record's total
  (production plus import plus discharge; the carbon totals when emissions are displayed)
  and hands it to the formatter, whose divisor is the scale factor. Without emissions the
  formatter's unit is the axis label. With emissions the peak is divided by 1,000,000 and
  by 60 before it goes to the formatter (the code divides each record's total, which gives
  the same peak) and the axis label is \<^verbatim>\<open>tCO2eq / min\<close>. The scale factor and the label
  are those that \<^verbatim>\<open>prepareGraphData\<close> normalizes with and returns.
\<close>

theorem value_scale_from_peak:
  "is_peak (d3Max (map total_power h)) (map total_power h) \<and>
   is_peak (d3Max (map total_co2 h)) (map total_co2 h) \<and>
   total_power d = Number (num_add (num_add (to_number (totalProduction d))
      (to_number (totalImport d))) (to_number (totalDischarge d))) \<and>
   total_co2 d = Number (num_add (num_add (to_number (totalCo2Production d))
      (to_number (totalCo2Import d))) (to_number (totalCo2Discharge d))) \<and>
   getValuesInfo scalePower h False
     = \<lparr>valueAxisLabel = unit (scalePower (d3Max (map total_power h))),
        valueFactor = formattingFactor (scalePower (d3Max (map total_power h)))\<rparr> \<and>
   getValuesInfo scalePower h True
     = \<lparr>valueAxisLabel = ''tCO2eq / min'',
        valueFactor = formattingFactor (scalePower (divided_peak (d3Max (map total_co2 h))))\<rparr> \<and>
   divided_peak (Number (Fin r)) = Number (Fin (r / 1000000 / 60)) \<and>
   per_minute (Number (Fin r)) = Number (Fin (r / 1000000 / 60)) \<and>
   d3Max (map (\<lambda>d. per_minute (total_co2 d)) h) = divided_peak (d3Max (map total_co2 h)) \<and>
   scale_factor scalePower h e = valueFactor (getValuesInfo scalePower h e) \<and>
   (returns (prepareGraphData scalePower modeOrder (Some h) cb e mm ek) \<and> h \<noteq> [] \<longrightarrow>
      output_axisLabel (prepareGraphData scalePower modeOrder (Some h) cb e mm ek)
        = Some (valueAxisLabel (getValuesInfo scalePower h e)))"
proof -
  have pm: "d3Max (map (\<lambda>d. per_minute (total_co2 d)) h)
              = divided_peak (d3Max (map total_co2 h))"
    using d3Max_per_minute [of "map total_co2 h"]
      per_minute_divided [OF d3Max_Undefined_or_comparable, of "map total_co2 h"]
    by (simp add: total_co2_def comp_def)
  have "getValuesInfo scalePower h True
     = \<lparr>valueAxisLabel = ''tCO2eq / min'',
        valueFactor = formattingFactor (scalePower (divided_peak (d3Max (map total_co2 h))))\<rparr>"
    by (simp add: getValuesInfo_def pm Let_def)
  moreover have "getValuesInfo scalePower h False
     = \<lparr>valueAxisLabel = unit (scalePower (d3Max (map total_power h))),
        valueFactor = formattingFactor (scalePower (d3Max (map total_power h)))\<rparr>"
    by (simp add: getValuesInfo_def Let_def)
  moreover have "per_minute (Number (Fin r)) = Number (Fin (r / 1000000 / 60))"
    by (simp add: per_minute_num)
  ultimately show ?thesis
    using d3Max_is_peak [of "map total_power h"] d3Max_is_peak [of "map total_co2 h"] pm
      returns_outputs(3) [of scalePower modeOrder h cb e mm ek]
    by (simp add: total_power_def total_co2_def js_add_def scale_factor_def divided_peak_def)
qed

theorem value_scale_from_peak_witness:
  "returns (prepareGraphData threshold_scale example_order
      (Some [bare_record, example_record (- 40) True]) False True ''consumption'' [''US'']) \<and>
   map total_co2 [bare_record, example_record (- 40) True]
     = [Number (Fin 0), Number (Fin 73600)] \<and>
   map total_power [bare_record, example_record (- 40) True]
     = [Number (Fin 0), Number (Fin 170)] \<and>
   comparable (Number (Fin 0)) \<and> comparable (Number (Fin 73600)) \<and>
   d3Max (map total_co2 [bare_record, example_record (- 40) True]) = Number (Fin 73600) \<and>
   d3Max (map total_power [bare_record, example_record (- 40) True]) = Number (Fin 170) \<and>
   is_peak (d3Max (map total_co2 [bare_record, example_record (- 40) True]))
     (map total_co2 [bare_record, example_record (- 40) True]) \<and>
   \<not> js_lt (Number (Fin 73600)) (Number (Fin 0)) \<and>
   divided_peak (Number (Fin 73600)) = Number (Fin (23 / 18750)) \<and>
   getValuesInfo threshold_scale [bare_record, example_record (- 40) True] True
     = \<lparr>valueAxisLabel = ''tCO2eq / min'', valueFactor = Number (Fin (1 / 1000))\<rparr> \<and>
   getValuesInfo threshold_scale [bare_record, example_record (- 40) True] False
     = \<lparr>valueAxisLabel = ''MW'', valueFactor = Number (Fin 1)\<rparr> \<and>
   output_axisLabel (prepareGraphData threshold_scale example_order
      (Some [bare_record, example_record (- 40) True]) False True ''consumption'' [''US''])
     = Some ''tCO2eq / min''"
proof -
  let ?h = "[bare_record, example_record (- 40) True]"
  let ?R = "prepareGraphData threshold_scale example_order (Some ?h) False True ''consumption''
      [''US'']"
  have r: "returns ?R"
    by (rule returns_total) (simp_all add: tables_present_def example_record_def bare_record_def)
  have m: "map total_co2 ?h = [Number (Fin 0), Number (Fin 73600)]"
    by (simp add: total_co2_def js_add_def num_add_def bare_record_def example_record_def)
  have m': "map total_power ?h = [Number (Fin 0), Number (Fin 170)]"
    by (simp add: total_power_def js_add_def num_add_def bare_record_def example_record_def)
  have c: "comparable (Number (Fin 0))" "comparable (Number (Fin 73600))"
    by (simp_all add: comparable_def js_ge_def num_ge_def num_lt_def)
  have d: "d3Max (map total_co2 ?h) = Number (Fin 73600)"
    unfolding m by (simp add: d3Max_def d3Max_step_def js_lt_def js_ge_def num_ge_def num_lt_def)
  have d': "d3Max (map total_power ?h) = Number (Fin 170)"
    unfolding m' by (simp add: d3Max_def d3Max_step_def js_lt_def js_ge_def num_ge_def num_lt_def)
  have l: "\<not> js_lt (Number (Fin 73600)) (Number (Fin 0))"
    by (simp add: js_lt_def num_lt_def)
  note t = value_scale_from_peak [of ?h _ threshold_scale 73600 True example_order False
      "''consumption''" "[''US'']"]
  have t1: "is_peak (d3Max (map total_co2 ?h)) (map total_co2 ?h)"
    using t by blast
  have t2: "divided_peak (Number (Fin 73600)) = Number (Fin (23 / 18750))"
    using t by simp
  have t3: "getValuesInfo threshold_scale ?h True
     = \<lparr>valueAxisLabel = ''tCO2eq / min'', valueFactor = Number (Fin (1 / 1000))\<rparr>"
  proof -
    from t have "getValuesInfo threshold_scale ?h True
       = \<lparr>valueAxisLabel = ''tCO2eq / min'',
          valueFactor = formattingFactor (threshold_scale
            (divided_peak (d3Max (map total_co2 ?h))))\<rparr>"
      by blast
    then show ?thesis
      unfolding d t2 by (simp add: threshold_scale_def js_lt_def num_lt_def)
  qed
  have t4: "getValuesInfo threshold_scale ?h False
     = \<lparr>valueAxisLabel = ''MW'', valueFactor = Number (Fin 1)\<rparr>"
  proof -
    from t have "getValuesInfo threshold_scale ?h False
       = \<lparr>valueAxisLabel = unit (threshold_scale (d3Max (map total_power ?h))),
          valueFactor = formattingFactor (threshold_scale (d3Max (map total_power ?h)))\<rparr>"
      by blast
    then show ?thesis
      unfolding d' by (simp add: threshold_scale_def js_lt_def num_lt_def)
  qed
  have t5: "output_axisLabel ?R = Some ''tCO2eq / min''"
  proof -
    from t r have "output_axisLabel ?R = Some (valueAxisLabel (getValuesInfo threshold_scale ?h True))"
      by simp
    then show ?thesis unfolding t3 by simp
  qed
  show ?thesis by (intro conjI r m m' c d d' t1 l t2 t3 t4 t5)
qed

text \<open>
  C6, as the code has it. A key that is neither a category key nor one of the names
  \<^verbatim>\<open>meta\<close> and \<^verbatim>\<open>datetime\<close> is a field of an output record if and only if the
  mix-accounting mode is \<^verbatim>\<open>consumption\<close> and the exchange loop visits that key in the
  record's own exchange object (and the key is not \<^verbatim>\<open>__proto__\<close>); for an exchange
  object that is not array-like the keys visited are its own properties. So in any other
  mode no exchange field is emitted, and in mode \<^verbatim>\<open>consumption\<close> a partner that the
  record's exchange object lacks has no field either.
\<close>

theorem exchange_fields_iff_consumption:
  assumes "returns (prepareGraphData scalePower modeOrder (Some h) cb e mm ek)"
    and "i < length h"
    and "k \<notin> set modeOrder" and "k \<noteq> ''meta''" and "k \<noteq> ''datetime''"
  shows "(output_field (prepareGraphData scalePower modeOrder (Some h) cb e mm ek) i k \<noteq> None)
           = (mm = ''consumption'' \<and> k \<in> fst ` set (lodash_pairs (exchange (h ! i))) \<and>
              k \<noteq> ''__proto__'') \<and>
         (\<not> isArrayLike (or_empty (exchange (h ! i))) \<longrightarrow>
            (output_field (prepareGraphData scalePower modeOrder (Some h) cb e mm ek) i k \<noteq> None)
              = (mm = ''consumption'' \<and> k \<in> fst ` set (or_empty (exchange (h ! i))) \<and>
                 k \<noteq> ''__proto__''))"
proof -
  let ?f = "scale_factor scalePower h e"
  let ?d = "h ! i"
  from returns_row [OF assms(1,2)] obtain row where
    row: "layer_of modeOrder e mm ?f ?d = Inr row"
    and out: "\<And>k. output_field (prepareGraphData scalePower modeOrder (Some h) cb e mm ek) i k
                = row k"
    by blast
  have first: "(row k \<noteq> None)
      = (mm = ''consumption'' \<and> k \<in> fst ` set (lodash_pairs (exchange ?d)) \<and> k \<noteq> ''__proto__'')"
  proof (cases "mm = ''consumption'' \<and> k \<in> fst ` set (lodash_pairs (exchange ?d)) \<and>
      k \<noteq> ''__proto__''")
    case True
    from layer_of_exchange [OF row _ _ assms(4)] True have "row k \<noteq> None" by auto
    with True show ?thesis by simp
  next
    case False
    then have "mm \<noteq> ''consumption'' \<or> k \<notin> fst ` set (lodash_pairs (exchange ?d)) \<or>
        k = ''__proto__''"
      by blast
    from layer_of_other [OF row assms(3,4) this] assms(5) have "row k = None" by simp
    with False show ?thesis by simp
  qed
  have second: "lodash_pairs (exchange ?d) = or_empty (exchange ?d)"
    if "\<not> isArrayLike (or_empty (exchange ?d))"
    using that by (rule lodash_pairs_plain)
  from first second show ?thesis
    unfolding out by simp
qed

theorem exchange_fields_iff_consumption_witness:
  "returns (prepareGraphData unit_scale example_order (Some [example_record (- 40) True])
      False False ''consumption'' [''US'', ''DE'']) \<and>
   returns (prepareGraphData unit_scale example_order (Some [example_record (- 40) True])
      False False ''production'' [''US'', ''DE'']) \<and>
   ''US'' \<notin> set example_order \<and>
   \<not> isArrayLike (or_empty (exchange ([example_record (- 40) True] ! 0))) \<and>
   ''US'' \<in> fst ` set (or_empty (exchange ([example_record (- 40) True] ! 0))) \<and>
   output_field (prepareGraphData unit_scale example_order (Some [example_record (- 40) True])
      False False ''consumption'' [''US'', ''DE'']) 0 ''US'' \<noteq> None \<and>
   output_field (prepareGraphData unit_scale example_order (Some [example_record (- 40) True])
      False False ''production'' [''US'', ''DE'']) 0 ''US'' = None"
proof -
  let ?h = "[example_record (- 40) True]"
  have r1: "returns (prepareGraphData unit_scale example_order (Some ?h)
      False False ''consumption'' [''US'', ''DE''])"
    by (rule returns_total) simp_all
  have r2: "returns (prepareGraphData unit_scale example_order (Some ?h)
      False False ''production'' [''US'', ''DE''])"
    by (rule returns_total) simp_all
  have o: "''US'' \<notin> set example_order" by (simp add: example_order_def)
  have a: "\<not> isArrayLike (or_empty (exchange (?h ! 0)))"
    by (simp add: isArrayLike_def isLength_def getProp_def or_empty_def example_record_def)
  have m: "''US'' \<in> fst ` set (or_empty (exchange (?h ! 0)))"
    by (simp add: or_empty_def example_record_def)
  have t1: "output_field (prepareGraphData unit_scale example_order (Some ?h)
      False False ''consumption'' [''US'', ''DE'']) 0 ''US'' \<noteq> None"
    using exchange_fields_iff_consumption [OF r1 _ o] a m by (simp add: lodash_pairs_plain)
  have t2: "output_field (prepareGraphData unit_scale example_order (Some ?h)
      False False ''production'' [''US'', ''DE'']) 0 ''US'' = None"
    using exchange_fields_iff_consumption [OF r2 _ o] a m by (simp add: lodash_pairs_plain)
  show ?thesis by (intro conjI r1 r2 o a m t1 t2)
qed

theorem absent_partner_counterexample:
  "''DE'' \<in> set [''US'', ''DE''] \<and>
   output_field (prepareGraphData unit_scale example_order (Some [example_record (- 40) True])
      False False ''consumption'' [''US'', ''DE'']) 0 ''DE'' = None \<and>
   output_field (prepareGraphData unit_scale example_order (Some [example_record (- 40) True])
      False False ''consumption'' [''US'', ''DE'']) 0 ''US'' = Some (FNum (Fin 30))"
  by (simp add: eval_defs)

lemma floored_not_negative:
  "math_max (Fin 0) x = NaN \<or> num_ge (math_max (Fin 0) x) (Fin 0)"
  by (cases x) (auto simp: math_max_def num_ge_def num_lt_def signed_zero_def)

lemma co2_factor_not_negative:
  assumes "not_negative c"
  shows "co2_factor c = NaN \<or> num_ge (co2_factor c) (Fin 0)"
  using assms
  by (cases "to_number c")
     (auto simp: not_negative_def js_lt_def co2_factor_def js_div_def num_div_def num_ge_def
        num_lt_def signed_zero_def signed_inf_def not_less zero_le_divide_iff)

lemma product_not_negative:
  assumes "a = NaN \<or> num_ge a (Fin 0)" and "b = NaN \<or> num_ge b (Fin 0)"
  shows "num_mul a b = NaN \<or> num_ge (num_mul a b) (Fin 0)"
  using assms
  by (cases a; cases b)
     (auto simp: num_mul_def num_ge_def num_lt_def signed_zero_def signed_inf_def not_less
        zero_le_mult_iff)

lemma zero_times_finite:
  assumes "finite_value c"
  shows "is_zero (num_mul (Fin 0) (co2_factor c))"
  using assms
  by (cases "to_number c")
     (auto simp: finite_value_def co2_factor_def js_div_def num_div_def num_mul_def
        signed_zero_def signed_inf_def)

lemma floored_negative:
  assumes "pos_finite f" and "num_lt (to_number v) (Fin 0)"
  shows "math_max (Fin 0) (js_div v f) = Fin 0"
proof -
  from assms(2) have "floor_at_zero (to_number v) = Fin 0"
    by (cases "to_number v") (auto simp: num_lt_def)
  with max0_div_pos [OF assms(1), of v] assms(1) show ?thesis
    by (auto simp: pos_finite_def num_div_def signed_zero_def split: jsval.splits jsnum.splits)
qed

lemma exchange_field_never_negative:
  assumes c: "e \<longrightarrow> not_negative (getProp (or_empty (exchangeCo2Intensities d)) k)"
    and n: "exchange_field d e f (k, v) = Inr n"
  shows "n = NaN \<or> num_ge n (Fin 0)"
proof (cases "isFinite v \<and> e")
  case True
  with n obtain t where t: "exchangeCo2Intensities d = Some t"
    and nt: "n = num_mul (math_max (Fin 0) (js_div v f)) (co2_factor (getProp t k))"
    by (auto simp: exchange_field_def split: option.splits)
  from c True t have "not_negative (getProp t k)" by (simp add: or_empty_def)
  from product_not_negative [OF floored_not_negative co2_factor_not_negative [OF this]] nt
  show ?thesis by simp
next
  case False
  with n have "n = math_max (Fin 0) (js_div v f)"
    by (auto simp: exchange_field_def split: option.splits)
  with floored_not_negative show ?thesis by simp
qed

lemma exchange_field_export_zero:
  assumes f: "pos_finite f" and v: "num_lt (to_number v) (Fin 0)"
    and c: "e \<longrightarrow> finite_value (getProp (or_empty (exchangeCo2Intensities d)) k)"
    and n: "exchange_field d e f (k, v) = Inr n"
  shows "is_zero n"
proof (cases "isFinite v \<and> e")
  case True
  with n obtain t where t: "exchangeCo2Intensities d = Some t"
    and nt: "n = num_mul (math_max (Fin 0) (js_div v f)) (co2_factor (getProp t k))"
    by (auto simp: exchange_field_def split: option.splits)
  from c True t have "finite_value (getProp t k)" by (simp add: or_empty_def)
  from zero_times_finite [OF this] nt floored_negative [OF f v] show ?thesis by simp
next
  case False
  with n have "n = math_max (Fin 0) (js_div v f)"
    by (auto simp: exchange_field_def split: option.splits)
  with floored_negative [OF f v] show ?thesis by simp
qed

text \<open>
  C7, as the code has it. In mode \<^verbatim>\<open>consumption\<close>, the field of a key that the exchange
  loop visits (other than \<^verbatim>\<open>meta\<close> and \<^verbatim>\<open>__proto__\<close>, in an exchange object whose
  properties have distinct names) is never negative: it is \<open>NaN\<close> or at least zero,
  provided that emissions are not displayed or the partner's intensity is not negative.
  It is zero when the raw value is negative, the scale factor is a finite number above
  zero and, if emissions are displayed, the partner's intensity is a finite number. It is
  \<open>NaN\<close> when emissions are displayed, the raw value is finite and the intensity table
  has no entry for the partner.
\<close>

theorem exchange_field_never_below_zero:
  assumes "returns (prepareGraphData scalePower modeOrder (Some h) cb e ''consumption'' ek)"
    and "i < length h"
    and "distinct (map fst (or_empty (exchange (h ! i))))"
    and "(k, v) \<in> set (lodash_pairs (exchange (h ! i)))"
    and "k \<noteq> ''meta''" and "k \<noteq> ''__proto__''"
    and "e \<longrightarrow> not_negative (getProp (or_empty (exchangeCo2Intensities (h ! i))) k)"
  shows "\<exists>n. output_field (prepareGraphData scalePower modeOrder (Some h) cb e
                ''consumption'' ek) i k = Some (FNum n) \<and>
             (n = NaN \<or> num_ge n (Fin 0)) \<and>
             (pos_finite (scale_factor scalePower h e) \<and> num_lt (to_number v) (Fin 0) \<and>
              (e \<longrightarrow> finite_value (getProp (or_empty (exchangeCo2Intensities (h ! i))) k))
                \<longrightarrow> is_zero n) \<and>
             (e \<and> isFinite v \<and>
              getProp (or_empty (exchangeCo2Intensities (h ! i))) k = Undefined
                \<longrightarrow> n = NaN)"
proof -
  let ?f = "scale_factor scalePower h e"
  let ?d = "h ! i"
  from returns_row [OF assms(1,2)] obtain row where
    row: "layer_of modeOrder e ''consumption'' ?f ?d = Inr row"
    and out: "\<And>k. output_field (prepareGraphData scalePower modeOrder (Some h) cb e
                ''consumption'' ek) i k = row k"
    by blast
  from layer_of_exchange_distinct [OF row refl assms(3,4,5,6)] obtain n where
    n: "exchange_field ?d e ?f (k, v) = Inr n" "row k = Some (FNum n)"
    by blast
  have 1: "n = NaN \<or> num_ge n (Fin 0)"
    using exchange_field_never_negative [OF assms(7) n(1)] .
  have 2: "is_zero n"
    if "pos_finite ?f" "num_lt (to_number v) (Fin 0)"
      "e \<longrightarrow> finite_value (getProp (or_empty (exchangeCo2Intensities ?d)) k)"
    using exchange_field_export_zero [OF that n(1)] .
  have 3: "n = NaN"
    if "e" "isFinite v" "getProp (or_empty (exchangeCo2Intensities ?d)) k = Undefined"
    using exchange_field_no_intensity [OF that(2,3)] n(1) that(1) by simp
  from n(2) 1 2 3 show ?thesis
    unfolding out by blast
qed

theorem exchange_field_never_below_zero_witness:
  "returns (prepareGraphData unit_scale example_order
      (Some [example_record (- 40) True, bare_record]) False True ''consumption'' [''US'']) \<and>
   pos_finite (scale_factor unit_scale [example_record (- 40) True, bare_record] True) \<and>
   distinct (map fst (or_empty (exchange ([example_record (- 40) True, bare_record] ! 1)))) \<and>
   (''US'', Number (Fin (- 20)))
     \<in> set (lodash_pairs (exchange ([example_record (- 40) True, bare_record] ! 1))) \<and>
   not_negative (getProp (or_empty (exchangeCo2Intensities
       ([example_record (- 40) True, bare_record] ! 1))) ''US'') \<and>
   finite_value (getProp (or_empty (exchangeCo2Intensities
       ([example_record (- 40) True, bare_record] ! 1))) ''US'') \<and>
   num_lt (to_number (Number (Fin (- 20)))) (Fin 0) \<and>
   (\<exists>n. output_field (prepareGraphData unit_scale example_order
      (Some [example_record (- 40) True, bare_record]) False True ''consumption'' [''US''])
      1 ''US'' = Some (FNum n) \<and> (n = NaN \<or> num_ge n (Fin 0)) \<and> is_zero n) \<and>
   output_field (prepareGraphData unit_scale example_order
      (Some [example_record (- 40) True, bare_record]) False True ''consumption'' [''US''])
      1 ''US'' = Some (FNum (Fin 0)) \<and>
   output_field (prepareGraphData unit_scale example_order
      (Some [example_record (- 40) True, bare_record]) False True ''consumption'' [''US''])
      0 ''US'' = Some (FNum (Fin (21 / 100)))"
proof -
  let ?h = "[example_record (- 40) True, bare_record]"
  let ?R = "prepareGraphData unit_scale example_order (Some ?h) False True ''consumption'' [''US'']"
  have r: "returns ?R"
    by (rule returns_total) (simp_all add: tables_present_def example_record_def bare_record_def)
  have p: "pos_finite (scale_factor unit_scale ?h True)"
    by (simp add: pos_finite_def scale_factor_def getValuesInfo_def unit_scale_def)
  have d: "distinct (map fst (or_empty (exchange (?h ! 1))))"
    "(''US'', Number (Fin (- 20))) \<in> set (lodash_pairs (exchange (?h ! 1)))"
    by (simp_all add: bare_record_def or_empty_def lodash_pairs_def isArrayLike_def
        isLength_def getProp_def)
  have c: "not_negative (getProp (or_empty (exchangeCo2Intensities (?h ! 1))) ''US'')"
    "finite_value (getProp (or_empty (exchangeCo2Intensities (?h ! 1))) ''US'')"
    by (simp_all add: bare_record_def or_empty_def getProp_def not_negative_def finite_value_def
        js_lt_def num_lt_def)
  have l: "num_lt (to_number (Number (Fin (- 20)))) (Fin 0)" by (simp add: num_lt_def)
  have t: "\<exists>n. output_field ?R 1 ''US'' = Some (FNum n) \<and> (n = NaN \<or> num_ge n (Fin 0)) \<and>
      is_zero n"
    using exchange_field_never_below_zero [OF r _ d] c l p by auto
  have o: "output_field ?R 1 ''US'' = Some (FNum (Fin 0))"
    "output_field ?R 0 ''US'' = Some (FNum (Fin (21 / 100)))"
    by (simp_all add: eval_defs)
  show ?thesis by (intro conjI r p d c l t o)
qed

theorem missing_exchange_intensity_counterexample:
  "output_field (prepareGraphData unit_scale example_order (Some [example_record (- 40) False])
      False True ''consumption'' [''US'']) 0 ''US'' = Some (FNum NaN) \<and>
   \<not> num_ge NaN (Fin 0)"
  by (simp add: eval_defs)

text \<open>
  C8. For a batch that is not empty, the layer keys returned are the category order
  followed by the exchange keys: as many keys as both lists have together, the category
  keys at the first positions and every exchange key at a position after all of them.
\<close>

theorem layerKeys_order_then_exchange:
  assumes "returns (prepareGraphData scalePower modeOrder (Some h) cb e mm exchangeKeys)"
    and "h \<noteq> []"
  shows "\<exists>keys. output_layerKeys (prepareGraphData scalePower modeOrder (Some h) cb e mm
                  exchangeKeys) = Some keys \<and>
           keys = modeOrder @ exchangeKeys \<and>
           length keys = length modeOrder + length exchangeKeys \<and>
           (\<forall>i<length modeOrder. keys ! i = modeOrder ! i) \<and>
           (\<forall>j<length exchangeKeys. keys ! (length modeOrder + j) = exchangeKeys ! j)"
  using returns_outputs(2) [OF assms] by (simp add: nth_append)

theorem layerKeys_order_then_exchange_witness:
  "returns (prepareGraphData unit_scale example_order
      (Some [example_record (- 40) True, bare_record]) True False ''consumption'' [''US'']) \<and>
   output_layerKeys (prepareGraphData unit_scale example_order
      (Some [example_record (- 40) True, bare_record]) True False ''consumption'' [''US''])
     = Some [''gas'', ''battery storage'', ''US'']"
proof -
  have r: "returns (prepareGraphData unit_scale example_order
      (Some [example_record (- 40) True, bare_record]) True False ''consumption'' [''US''])"
    by (rule returns_total) simp_all
  from layerKeys_order_then_exchange [OF r] r show ?thesis
    by (simp add: example_order_def)
qed

lemma run_snoc: "run g isMobile (evs @ [ev]) = handle g isMobile (run g isMobile evs) ev"
  by (simp add: run_def)

text \<open>
  C9, as the code has it. The tooltip is hidden (\<^verbatim>\<open>null\<close>) at first. Whatever the state, a
  marker update shows it with the payload made of the layer key, the anchored position and
  the \<^verbatim>\<open>meta\<close> of the datapoint, and a marker hide hides it. The four hover handlers
  (pointer moves and pointer-outs over the background or a layer) leave the tooltip as it
  is; so after any sequence of events the tooltip is what the last marker event made it.
\<close>

theorem tooltip_follows_marker_events:
  "tooltip (run g isMobile []) = None \<and>
   tooltip (handle g isMobile s (MarkerUpdate pos datapoint layerKey))
     = Some \<lparr>mode = layerKey, position = g isMobile pos, zoneData = datapoint ''meta''\<rparr> \<and>
   tooltip (handle g isMobile s MarkerHide) = None \<and>
   tooltip (handle g isMobile s (LayerMouseMove t l)) = tooltip s \<and>
   tooltip (handle g isMobile s LayerMouseOut) = tooltip s \<and>
   tooltip (handle g isMobile s (BackgroundMouseMove t)) = tooltip s \<and>
   tooltip (handle g isMobile s BackgroundMouseOut) = tooltip s \<and>
   tooltip (run g isMobile (evs @ [ev]))
     = (case ev of
          MarkerUpdate pos' datapoint' layerKey' \<Rightarrow>
            Some \<lparr>mode = layerKey', position = g isMobile pos', zoneData = datapoint' ''meta''\<rparr>
        | MarkerHide \<Rightarrow> None
        | _ \<Rightarrow> tooltip (run g isMobile evs))"
  by (cases ev)
     (simp_all add: run_snoc run_def initial_state_def markerUpdateHandler_def markerHideHandler_def
        layerMouseMoveHandler_def layerMouseOutHandler_def backgroundMouseMoveHandler_def
        backgroundMouseOutHandler_def)

theorem layer_hover_counterexample:
  "tooltip (run example_position False [LayerMouseMove 3 1]) = None \<and>
   tooltip (run example_position False
      [MarkerUpdate (10, 20) example_datapoint ''gas'', LayerMouseOut])
     = Some \<lparr>mode = ''gas'', position = (10, 20), zoneData = Some (FMeta bare_record)\<rparr>"
  by (simp add: run_def initial_state_def markerUpdateHandler_def layerMouseMoveHandler_def
      layerMouseOutHandler_def example_position_def example_datapoint_def)

text \<open>
  C10. When the production object of a record is absent or has no entry for a generation
  category \<open>k\<close> of the category order, the output record still has the field \<open>k\<close>, and
  its value is \<open>NaN\<close>: the field is neither left out nor set to zero. (The key is not
  \<^verbatim>\<open>meta\<close> and not overwritten by an exchange key of the same name.)
\<close>

theorem missing_production_gives_NaN:
  assumes "returns (prepareGraphData scalePower modeOrder (Some h) cb e mm ek)"
    and "i < length h"
    and "k \<in> set modeOrder" and "\<not> is_storage k"
    and "map_of (or_empty (production (h ! i))) k = None"
    and "k \<noteq> ''meta''"
    and "mm \<noteq> ''consumption'' \<or> k \<notin> fst ` set (or_empty (exchange (h ! i)))"
  shows "output_field (prepareGraphData scalePower modeOrder (Some h) cb e mm ek) i k
           = Some (FNum NaN)"
proof -
  let ?f = "scale_factor scalePower h e"
  let ?d = "h ! i"
  from returns_row [OF assms(1,2)] obtain row where
    row: "layer_of modeOrder e mm ?f ?d = Inr row"
    and out: "\<And>k. output_field (prepareGraphData scalePower modeOrder (Some h) cb e mm ek) i k
                = row k"
    by blast
  have "row k = Some (FNum NaN)"
  proof (cases "mm = ''consumption'' \<and> k \<in> fst ` set (lodash_pairs (exchange ?d)) \<and>
      k \<noteq> ''__proto__''")
    case True
    from layer_of_exchange [OF row _ _ assms(6)] True obtain v n where
      v: "(k, v) \<in> set (lodash_pairs (exchange ?d))" "exchange_field ?d e ?f (k, v) = Inr n"
        "row k = Some (FNum n)"
      by blast
    from True assms(7) have "k \<notin> fst ` set (or_empty (exchange ?d))" by simp
    from lodash_pairs_not_own [OF v(1) this] have "v = Undefined" .
    with v(2) have "n = NaN"
      by (simp add: exchange_field_def js_div_def num_div_def math_max_def)
    with v(3) show ?thesis by simp
  next
    case False
    then have "mm \<noteq> ''consumption'' \<or> k \<notin> fst ` set (lodash_pairs (exchange ?d)) \<or>
        k = ''__proto__''"
      by blast
    from layer_of_category [OF row assms(3,6) this] obtain n where
      n: "production_field ?d e ?f k = Inr n" "row k = Some (FNum n)"
      by auto
    from assms(4,5) have "production_field ?d e ?f k = Inr NaN"
      by (simp add: production_field_def add_production_def is_storage_def getProp_def
          js_div_def num_div_def)
    with n show ?thesis by simp
  qed
  then show ?thesis by (simp add: out)
qed

theorem missing_production_gives_NaN_witness:
  "returns (prepareGraphData unit_scale example_order
      (Some [example_record (- 40) True, bare_record]) False False ''production'' [''US'']) \<and>
   ''gas'' \<in> set example_order \<and> \<not> is_storage ''gas'' \<and>
   map_of (or_empty (production ([example_record (- 40) True, bare_record] ! 1))) ''gas'' = None \<and>
   output_field (prepareGraphData unit_scale example_order
      (Some [example_record (- 40) True, bare_record]) False False ''production'' [''US'']) 1 ''gas''
     = Some (FNum NaN)"
proof -
  have r: "returns (prepareGraphData unit_scale example_order
      (Some [example_record (- 40) True, bare_record]) False False ''production'' [''US''])"
    by (rule returns_total) simp_all
  have g: "''gas'' \<in> set example_order" "\<not> is_storage ''gas''"
    by (simp_all add: example_order_def is_storage_def)
  have p: "map_of (or_empty (production ([example_record (- 40) True, bare_record] ! 1))) ''gas''
             = None"
    by (simp add: bare_record_def or_empty_def)
  from missing_production_gives_NaN [OF r _ g p] r g p show ?thesis by simp
qed

end
